theory Spec2Isabelle
  imports Main "HOL-Library.Word" "HOL-Library.AList"
begin

unbundle bit_operations_syntax

section \<open>Bytes, errors and byte streams\<close>

type_synonym byte = "8 word"

text \<open>
  The errors of the relay protocol package and of the relay manager. The sentinel values
  of the source keep their names; errors built with \<open>fmt.Errorf\<close> or \<open>errors.New\<close> at the
  place of use get a constructor of their own. \<open>ErrIO\<close> stands for every error of the
  transport itself (short read, deadline, reset or closed connection).
\<close>

datatype error =
    ErrBadMagic
  | ErrBadVersion
  | ErrHMACMismatch
  | ErrFrameTooLarge nat      \<comment> \<open>\<open>relay-server frame too large: %d\<close>\<close>
  | ErrTooLarge               \<comment> \<open>\<open>payload too large\<close> of the control framing\<close>
  | ErrIO
  | ErrAllocationNotFound
  | ErrBadPeer
  | ErrReadFrame error        \<comment> \<open>\<open>read relay-server frame: %w\<close>\<close>
  | ErrUnexpectedType byte    \<comment> \<open>\<open>unexpected relay-server frame type: %d\<close>\<close>
  | ErrBadPayload             \<comment> \<open>\<open>bad handshake payload: %w\<close>\<close>
  | ErrBadPeerID              \<comment> \<open>the error of \<open>peer.IDFromBytes\<close>\<close>
  | ErrWriteAck error         \<comment> \<open>\<open>write ack: %w\<close>\<close>
  | ErrServerAlreadyBridged   \<comment> \<open>\<open>server already bridged\<close>\<close>
  | ErrClientAlreadyBridged   \<comment> \<open>\<open>client already bridged\<close>\<close>
  | ErrAlreadyStarted         \<comment> \<open>\<open>already started\<close>\<close>

text \<open>
  \<open>io.ReadFull\<close> on a byte source: the buffer of \<open>n\<close> bytes starts zeroed; when the source
  holds fewer than \<open>n\<close> bytes, what is there is copied, the rest stays zero and the read
  fails. The result is the error, the buffer and the rest of the source.
\<close>

definition io_ReadFull :: "nat \<Rightarrow> byte list \<Rightarrow> error option \<times> byte list \<times> byte list" where
  "io_ReadFull n src =
     (if n \<le> length src then (None, take n src, drop n src)
      else (Some ErrIO, src @ replicate (n - length src) 0, []))"

text \<open>\<open>binary.LittleEndian\<close>: 16-bit and 64-bit values as bytes, least significant first.\<close>

definition PutUint16 :: "16 word \<Rightarrow> byte list" where
  "PutUint16 v = [ucast v, ucast (drop_bit 8 v)]"

fun Uint16 :: "byte list \<Rightarrow> 16 word" where
  "Uint16 (b0 # b1 # _) = ucast b0 OR push_bit 8 (ucast b1)"
| "Uint16 _ = 0"

fun le_uint :: "byte list \<Rightarrow> 'a::len word" where
  "le_uint [] = 0"
| "le_uint (b # bs) = ucast b OR push_bit 8 (le_uint bs)"

definition Uint64 :: "byte list \<Rightarrow> 64 word" where
  "Uint64 b = le_uint (take 8 b)"

section \<open>SHA-256 and HMAC\<close>

text \<open>
  \<open>crypto/sha256\<close> and \<open>crypto/hmac\<close> are packages of the Go standard library. They are
  modelled after the standards they implement: SHA-256 after FIPS 180-4, HMAC after
  RFC 2104 (the way \<open>hmac.New\<close> prepares the key: a key longer than the block size of
  64 bytes is hashed, and the key is then copied into a zeroed block). The round
  constants are the first 32 bits of the fractional parts of the cube roots of the first
  64 primes, the initial hash value those of the square roots of the first 8 primes.
\<close>

definition sha256_K :: "32 word list" where
  "sha256_K =
    [1116352408, 1899447441, 3049323471, 3921009573, 961987163, 1508970993,
     2453635748, 2870763221, 3624381080, 310598401, 607225278, 1426881987,
     1925078388, 2162078206, 2614888103, 3248222580, 3835390401, 4022224774,
     264347078, 604807628, 770255983, 1249150122, 1555081692, 1996064986,
     2554220882, 2821834349, 2952996808, 3210313671, 3336571891, 3584528711,
     113926993, 338241895, 666307205, 773529912, 1294757372, 1396182291,
     1695183700, 1986661051, 2177026350, 2456956037, 2730485921, 2820302411,
     3259730800, 3345764771, 3516065817, 3600352804, 4094571909, 275423344,
     430227734, 506948616, 659060556, 883997877, 958139571, 1322822218,
     1537002063, 1747873779, 1955562222, 2024104815, 2227730452, 2361852424,
     2428436474, 2756734187, 3204031479, 3329325298]"

definition sha256_init :: "32 word list" where
  "sha256_init =
    [1779033703, 3144134277, 1013904242, 2773480762,
     1359893119, 2600822924, 528734635, 1541459225]"

definition rotr :: "nat \<Rightarrow> 32 word \<Rightarrow> 32 word" where
  "rotr n x = drop_bit n x OR push_bit (32 - n) x"

definition Ch :: "32 word \<Rightarrow> 32 word \<Rightarrow> 32 word \<Rightarrow> 32 word" where
  "Ch x y z = (x AND y) XOR (NOT x AND z)"

definition Maj :: "32 word \<Rightarrow> 32 word \<Rightarrow> 32 word \<Rightarrow> 32 word" where
  "Maj x y z = (x AND y) XOR (x AND z) XOR (y AND z)"

definition bsig0 :: "32 word \<Rightarrow> 32 word" where
  "bsig0 x = rotr 2 x XOR rotr 13 x XOR rotr 22 x"

definition bsig1 :: "32 word \<Rightarrow> 32 word" where
  "bsig1 x = rotr 6 x XOR rotr 11 x XOR rotr 25 x"

definition ssig0 :: "32 word \<Rightarrow> 32 word" where
  "ssig0 x = rotr 7 x XOR rotr 18 x XOR drop_bit 3 x"

definition ssig1 :: "32 word \<Rightarrow> 32 word" where
  "ssig1 x = rotr 17 x XOR rotr 19 x XOR drop_bit 10 x"

text \<open>Big-endian conversions between bytes and words.\<close>

fun be_word :: "byte list \<Rightarrow> 'a::len word" where
  "be_word [] = 0"
| "be_word (b # bs) = push_bit (8 * length bs) (ucast b) OR be_word bs"

definition be_bytes :: "nat \<Rightarrow> 'a::len word \<Rightarrow> byte list" where
  "be_bytes n w = map (\<lambda>i. ucast (drop_bit (8 * (n - 1 - i)) w)) [0..<n]"

fun be_words32 :: "byte list \<Rightarrow> 32 word list" where
  "be_words32 (a # b # c # d # rest) = be_word [a, b, c, d] # be_words32 rest"
| "be_words32 _ = []"

text \<open>
  The message schedule: the sixteen words of the block, then forty-eight more, each
  from the sixteen before it. The window \<open>w\<close> holds the last sixteen words.
\<close>

fun sha256_schedule :: "nat \<Rightarrow> 32 word list \<Rightarrow> 32 word list" where
  "sha256_schedule 0 w = []"
| "sha256_schedule (Suc n) w =
     (let x = ssig1 (w ! 14) + w ! 9 + ssig0 (w ! 1) + w ! 0
      in x # sha256_schedule n (tl w @ [x]))"

fun sha256_round :: "32 word list \<Rightarrow> 32 word \<times> 32 word \<Rightarrow> 32 word list" where
  "sha256_round [a, b, c, d, e, f, g, h] (k, w) =
     (let t1 = h + bsig1 e + Ch e f g + k + w;
          t2 = bsig0 a + Maj a b c
      in [t1 + t2, a, b, c, d + t1, e, f, g])"
| "sha256_round s _ = s"

definition sha256_block :: "32 word list \<Rightarrow> byte list \<Rightarrow> 32 word list" where
  "sha256_block hs blk =
     (let w16 = be_words32 blk;
          ws = w16 @ sha256_schedule 48 w16
      in map2 (+) hs (foldl sha256_round hs (zip sha256_K ws)))"

definition sha256_pad :: "byte list \<Rightarrow> byte list" where
  "sha256_pad msg =
     msg @ [0x80] @ replicate ((119 - length msg mod 64) mod 64) 0
         @ be_bytes 8 (word_of_nat (8 * length msg) :: 64 word)"

fun sha256_blocks :: "nat \<Rightarrow> 32 word list \<Rightarrow> byte list \<Rightarrow> 32 word list" where
  "sha256_blocks 0 hs bs = hs"
| "sha256_blocks (Suc n) hs bs = sha256_blocks n (sha256_block hs (take 64 bs)) (drop 64 bs)"

definition sha256 :: "byte list \<Rightarrow> byte list" where
  "sha256 msg =
     (let p = sha256_pad msg
      in concat (map (be_bytes 4) (sha256_blocks (length p div 64) sha256_init p)))"

definition hmac_key_block :: "byte list \<Rightarrow> byte list" where
  "hmac_key_block key =
     (let k = (if length key > 64 then sha256 key else key)
      in k @ replicate (64 - length k) 0)"

definition hmac_sha256 :: "byte list \<Rightarrow> byte list \<Rightarrow> byte list" where
  "hmac_sha256 key msg =
     (let kb = hmac_key_block key;
          ipad = map (\<lambda>b. b XOR 0x36) kb;
          opad = map (\<lambda>b. b XOR 0x5c) kb
      in sha256 (opad @ sha256 (ipad @ msg)))"

section \<open>Connections\<close>

text \<open>
  A \<open>net.Conn\<close> (and, for the control framing, any \<open>io.Writer\<close>) as seen from this
  side: \<open>rbuf\<close> holds the bytes the peer delivers before the read deadline, \<open>wbuf\<close> the
  bytes written so far, \<open>wfail\<close> says that the transport rejects writes (the peer has
  reset the connection), \<open>closed\<close> that \<open>Close\<close> has been called here. A write is taken
  whole or not at all.
\<close>

record netconn =
  rbuf :: "byte list"
  wbuf :: "byte list"
  wfail :: bool
  closed :: bool

definition conn_Write :: "byte list \<Rightarrow> netconn \<Rightarrow> error option \<times> netconn" where
  "conn_Write bs c =
     (if closed c \<or> wfail c then (Some ErrIO, c)
      else (None, c\<lparr>wbuf := wbuf c @ bs\<rparr>))"

definition conn_ReadFull :: "nat \<Rightarrow> netconn \<Rightarrow> error option \<times> byte list \<times> netconn" where
  "conn_ReadFull n c =
     (if closed c then (Some ErrIO, replicate n 0, c)
      else (case io_ReadFull n (rbuf c) of (e, buf, rest) \<Rightarrow> (e, buf, c\<lparr>rbuf := rest\<rparr>)))"

definition conn_Close :: "netconn \<Rightarrow> netconn" where
  "conn_Close c = c\<lparr>closed := True\<rparr>"

section \<open>Relay data plane framing\<close>

definition relayMagic :: "byte list" where
  "relayMagic = [0x46, 0x4C, 0x59, 0x52]"   \<comment> \<open>\<open>FLYR\<close>\<close>

definition relayVersion :: byte where
  "relayVersion = 0x01"

definition RelayTypeHandshakeRequest :: byte where
  "RelayTypeHandshakeRequest = 0x01"

definition RelayTypeHandshakeAck :: byte where
  "RelayTypeHandshakeAck = 0x02"

record RelayHeader =
  Length :: "16 word"
  Version :: byte
  Type :: byte

text \<open>\<open>buildRelayHMAC\<close>: the HMAC over Magic, Length (LE16), Version, Type and Data.\<close>

definition buildRelayHMAC :: "byte list \<Rightarrow> RelayHeader \<Rightarrow> byte list \<Rightarrow> byte list" where
  "buildRelayHMAC token hdr data =
     hmac_sha256 token (relayMagic @ PutUint16 (Length hdr) @ [Version hdr, Type hdr] @ data)"

text \<open>\<open>hmac.Equal\<close> holds for slices of the same length and contents.\<close>

definition VerifyRelayHMAC :: "RelayHeader \<Rightarrow> byte list \<Rightarrow> byte list \<Rightarrow> byte list \<Rightarrow> error option" where
  "VerifyRelayHMAC h token data got =
     (let want = buildRelayHMAC token h data
      in if want \<noteq> got then Some ErrHMACMismatch else None)"

text \<open>The header that \<open>WriteRelayFrame\<close> builds and the buffer it fills before the write.\<close>

definition relayFrameHeader :: "byte \<Rightarrow> byte list \<Rightarrow> RelayHeader" where
  "relayFrameHeader typ data =
     \<lparr>Length = word_of_nat (length data), Version = relayVersion, Type = typ\<rparr>"

definition relayFrameBuf :: "byte \<Rightarrow> byte list \<Rightarrow> byte list \<Rightarrow> byte list" where
  "relayFrameBuf typ token data =
     (let hdr = relayFrameHeader typ data
      in relayMagic @ PutUint16 (Length hdr) @ [Version hdr] @ [Type hdr]
         @ (if length data > 0 then data else [])
         @ buildRelayHMAC token hdr data)"

definition WriteRelayFrame :: "netconn \<Rightarrow> byte \<Rightarrow> byte list \<Rightarrow> byte list \<Rightarrow> error option \<times> netconn" where
  "WriteRelayFrame w typ token data =
     (if length data > 0xFFFF then (Some (ErrFrameTooLarge (length data)), w)
      else conn_Write (relayFrameBuf typ token data) w)"

text \<open>
  \<open>ReadRelayFrameRaw\<close> reads magic, length, version, type, data and HMAC in turn and
  stops at the first failure. The HMAC is not verified here.
\<close>

definition ReadRelayFrameRaw ::
  "netconn \<Rightarrow> (error + RelayHeader \<times> byte list \<times> byte list) \<times> netconn" where
  "ReadRelayFrameRaw r =
     (case conn_ReadFull 4 r of
        (Some e, _, r1) \<Rightarrow> (Inl e, r1)
      | (None, magic, r1) \<Rightarrow>
          if magic \<noteq> relayMagic then (Inl ErrBadMagic, r1)
          else (case conn_ReadFull 2 r1 of
            (Some e, _, r2) \<Rightarrow> (Inl e, r2)
          | (None, le, r2) \<Rightarrow>
              (case conn_ReadFull 1 r2 of
                (Some e, _, r3) \<Rightarrow> (Inl e, r3)
              | (None, ver, r3) \<Rightarrow>
                  if hd ver \<noteq> relayVersion then (Inl ErrBadVersion, r3)
                  else (case conn_ReadFull 1 r3 of
                    (Some e, _, r4) \<Rightarrow> (Inl e, r4)
                  | (None, typ, r4) \<Rightarrow>
                      let hdr = \<lparr>Length = Uint16 le, Version = hd ver, Type = hd typ\<rparr>
                      in (case (if Length hdr > 0 then conn_ReadFull (unat (Length hdr)) r4
                                else (None, [], r4)) of
                        (Some e, _, r5) \<Rightarrow> (Inl e, r5)
                      | (None, data, r5) \<Rightarrow>
                          (case conn_ReadFull 32 r5 of
                            (Some e, _, r6) \<Rightarrow> (Inl e, r6)
                          | (None, hmacSum, r6) \<Rightarrow> (Inr (hdr, data, hmacSum), r6)))))))"

section \<open>Control framing\<close>

text \<open>\<open>WriteControlFrame\<close>: LE16 length, LE16 type, then the data in a second write.\<close>

definition WriteControlFrame :: "netconn \<Rightarrow> 16 word \<Rightarrow> byte list \<Rightarrow> error option \<times> netconn" where
  "WriteControlFrame w typ data =
     (if length data > 0xFFFF then (Some ErrTooLarge, w)
      else (case conn_Write (PutUint16 (word_of_nat (length data)) @ PutUint16 typ) w of
        (Some e, w1) \<Rightarrow> (Some e, w1)
      | (None, w1) \<Rightarrow> if length data > 0 then conn_Write data w1 else (None, w1)))"

section \<open>Handshake messages\<close>

record HandshakeRequest =
  StreamId :: "64 word"
  SenderPeerId :: "byte list"

record HandshakeAck =
  Ok :: bool
  Error :: string

type_synonym peer_ID = "byte list"

text \<open>
  Modelled from the spec: the generated package \<open>relaypb\<close> (with \<open>proto.Unmarshal\<close> and
  \<open>proto.Marshal\<close> on its messages) and \<open>peer.IDFromBytes\<close> of libp2p are not among the
  sources. The messages have the fields the handler uses; the decoder of the request,
  the encoder of the acknowledgement and the peer id parser are parameters of the
  handler, with \<open>None\<close> for their errors.
\<close>

record codecs =
  Unmarshal_HandshakeRequest :: "byte list \<Rightarrow> HandshakeRequest option"
  Marshal_HandshakeAck :: "HandshakeAck \<Rightarrow> byte list"
  IDFromBytes :: "byte list \<Rightarrow> peer_ID option"

section \<open>The relay manager\<close>

type_synonym conn_id = nat

text \<open>
  An instant is a count of nanoseconds; a \<open>time.Duration\<close> is a signed 64-bit count of
  nanoseconds. \<open>Time.Sub\<close> saturates at the smallest and the largest duration.
\<close>

type_synonym Time = int
type_synonym Duration = "64 word"

definition time_Sub :: "Time \<Rightarrow> Time \<Rightarrow> Duration" where
  "time_Sub t u =
     (let d = t - u
      in if d > 2 ^ 63 - 1 then word_of_int (2 ^ 63 - 1)
         else if d < - (2 ^ 63) then word_of_int (- (2 ^ 63))
         else word_of_int d)"

record allocation =
  streamID :: "64 word"
  token :: "byte list"
  serverPeerID :: peer_ID
  clientPeerID :: peer_ID
  sideS :: "conn_id option"
  sideC :: "conn_id option"
  created :: Time
  ttl :: Duration

text \<open>
  The goroutines of the manager: the accept loop, the collector loop, one handler per
  accepted connection, one \<open>startBridge\<close> per bridged allocation (with the stream id and
  the allocation it was started with).
\<close>

datatype task = AcceptLoop | GcLoop | Handler conn_id | Bridge "64 word" nat

text \<open>
  The manager and what it acts on. \<open>allocations\<close> is the map from stream ids to
  allocation pointers, a pointer being an index into \<open>heap\<close>; \<open>conns\<close> holds the state of
  every connection; \<open>wg\<close> is the counter of the wait group; \<open>lis\<close> is \<open>None\<close> before
  \<open>Start\<close>, \<open>Some True\<close> while the listener is open and \<open>Some False\<close> once it is closed;
  \<open>cancel\<close> says that \<open>m.cancel\<close> is set and \<open>ctx_done\<close> that the context is cancelled;
  \<open>tasks\<close> lists the goroutines that are running; \<open>accepted\<close> lists the
  connections that \<open>Accept\<close> has returned so far.
\<close>

record RelayManager =
  listenAddr :: string
  allocations :: "(64 word \<times> nat) list"
  heap :: "allocation list"
  conns :: "conn_id \<Rightarrow> netconn"
  wg :: int
  lis :: "bool option"
  cancel :: bool
  ctx_done :: bool
  tasks :: "task list"
  accepted :: "conn_id list"

definition close_conn :: "conn_id option \<Rightarrow> (conn_id \<Rightarrow> netconn) \<Rightarrow> (conn_id \<Rightarrow> netconn)" where
  "close_conn side net =
     (case side of None \<Rightarrow> net | Some c \<Rightarrow> net(c := conn_Close (net c)))"

definition allocation_Close :: "allocation \<Rightarrow> (conn_id \<Rightarrow> netconn) \<Rightarrow> (conn_id \<Rightarrow> netconn)" where
  "allocation_Close a net = close_conn (sideC a) (close_conn (sideS a) net)"

definition New :: "(conn_id \<Rightarrow> netconn) \<Rightarrow> string \<Rightarrow> RelayManager" where
  "New net addr =
     \<lparr>listenAddr = addr, allocations = [], heap = [], conns = net, wg = 0, lis = None,
      cancel = False, ctx_done = False, tasks = [], accepted = []\<rparr>"

text \<open>
  \<open>Start\<close>: \<open>listen_ok\<close> says whether \<open>net.Listen\<close> succeeds. The cancel function is set
  before the listener is opened.
\<close>

definition Start :: "bool \<Rightarrow> RelayManager \<Rightarrow> error option \<times> RelayManager" where
  "Start listen_ok m =
     (if cancel m then (Some ErrAlreadyStarted, m)
      else let m1 = m\<lparr>cancel := True\<rparr>
        in if \<not> listen_ok then (Some ErrIO, m1)
           else (None, m1\<lparr>lis := Some True, wg := wg m1 + 2,
                           tasks := tasks m1 @ [AcceptLoop, GcLoop]\<rparr>))"

text \<open>
  \<open>randomUint64\<close> and \<open>CreateStream\<close>: \<open>rnd\<close> is what \<open>rand.Reader\<close> delivers, \<open>now\<close> the
  reading of the clock. \<open>randomUint64\<close> ignores a failed read and decodes its buffer.
\<close>

definition randomUint64 :: "byte list \<Rightarrow> 64 word \<times> byte list" where
  "randomUint64 rnd = (case io_ReadFull 8 rnd of (_, b, rest) \<Rightarrow> (Uint64 b, rest))"

definition CreateStream ::
  "byte list \<Rightarrow> Time \<Rightarrow> peer_ID \<Rightarrow> peer_ID \<Rightarrow> Duration \<Rightarrow> RelayManager
   \<Rightarrow> (error + 64 word \<times> byte list \<times> string) \<times> RelayManager" where
  "CreateStream rnd now srv cli d m =
     (case randomUint64 rnd of (sid, rnd1) \<Rightarrow>
        (case io_ReadFull 32 rnd1 of
           (Some e, _, _) \<Rightarrow> (Inl e, m)
         | (None, tok, _) \<Rightarrow>
             let a = \<lparr>streamID = sid, token = tok, serverPeerID = srv, clientPeerID = cli,
                      sideS = None, sideC = None, created = now, ttl = d\<rparr>;
                 p = length (heap m)
             in (Inr (sid, tok, listenAddr m),
                 m\<lparr>heap := heap m @ [a],
                   allocations := AList.update sid p (allocations m)\<rparr>)))"

text \<open>
  The last part of \<open>handleConn\<close>, under the lock of the allocation: store the connection
  in the side of the sender unless that side is taken, and start the bridge when both
  sides are there. \<open>go m.startBridge\<close> adds a goroutine; the wait group is not touched.
\<close>

definition installSide ::
  "bool \<Rightarrow> 64 word \<Rightarrow> nat \<Rightarrow> conn_id \<Rightarrow> RelayManager \<Rightarrow> error option \<times> RelayManager" where
  "installSide isServerPeer sid p c m =
     (let a = heap m ! p
      in if isServerPeer \<and> sideS a \<noteq> None then (Some ErrServerAlreadyBridged, m)
         else if \<not> isServerPeer \<and> sideC a \<noteq> None then (Some ErrClientAlreadyBridged, m)
         else let a1 = (if isServerPeer then a\<lparr>sideS := Some c\<rparr> else a\<lparr>sideC := Some c\<rparr>);
                  m1 = m\<lparr>heap := (heap m)[p := a1]\<rparr>
           in if sideS a1 \<noteq> None \<and> sideC a1 \<noteq> None
              then (None, m1\<lparr>tasks := tasks m1 @ [Bridge sid p]\<rparr>)
              else (None, m1))"

definition writeAck ::
  "codecs \<Rightarrow> conn_id \<Rightarrow> byte list \<Rightarrow> HandshakeAck \<Rightarrow> RelayManager \<Rightarrow> error option \<times> RelayManager" where
  "writeAck pb c tok ack m =
     (case WriteRelayFrame (conns m c) RelayTypeHandshakeAck tok (Marshal_HandshakeAck pb ack) of
        (e, nc) \<Rightarrow> (e, m\<lparr>conns := (conns m)(c := nc)\<rparr>))"

text \<open>
  \<open>handleConn\<close>, taken as one step: read one frame, require a handshake request, decode
  it, look the allocation up, verify the HMAC under its token, check the sender, send
  the acknowledgement, install the side.
\<close>

definition handleConn :: "codecs \<Rightarrow> conn_id \<Rightarrow> RelayManager \<Rightarrow> error option \<times> RelayManager" where
  "handleConn pb c m =
     (case ReadRelayFrameRaw (conns m c) of
        (Inl e, nc) \<Rightarrow> (Some (ErrReadFrame e), m\<lparr>conns := (conns m)(c := nc)\<rparr>)
      | (Inr (hdr, data, hsum), nc) \<Rightarrow>
          let m1 = m\<lparr>conns := (conns m)(c := nc)\<rparr>
          in if Type hdr \<noteq> RelayTypeHandshakeRequest then (Some (ErrUnexpectedType (Type hdr)), m1)
             else (case Unmarshal_HandshakeRequest pb data of
               None \<Rightarrow> (Some ErrBadPayload, m1)
             | Some req \<Rightarrow>
                 (case map_of (allocations m1) (StreamId req) of
                    None \<Rightarrow>
                      (Some ErrAllocationNotFound,
                       snd (writeAck pb c (replicate 32 0) \<lparr>Ok = False, Error = ''no such stream''\<rparr> m1))
                  | Some p \<Rightarrow>
                      let a = heap m1 ! p
                      in (case VerifyRelayHMAC hdr (token a) data hsum of
                        Some err \<Rightarrow>
                          (Some err,
                           snd (writeAck pb c (token a) \<lparr>Ok = False, Error = ''hmac mismatch''\<rparr> m1))
                      | None \<Rightarrow>
                          (case IDFromBytes pb (SenderPeerId req) of
                             None \<Rightarrow> (Some ErrBadPeerID, m1)
                           | Some senderPeerId \<Rightarrow>
                               let isServerPeer = (serverPeerID a = senderPeerId);
                                   isClientPeer = (clientPeerID a = senderPeerId)
                               in if \<not> isServerPeer \<and> \<not> isClientPeer then (Some ErrBadPeer, m1)
                                  else (case writeAck pb c (token a) \<lparr>Ok = True, Error = []\<rparr> m1 of
                                    (Some e, m2) \<Rightarrow> (Some (ErrWriteAck e), m2)
                                  | (None, m2) \<Rightarrow>
                                      installSide isServerPeer (StreamId req) p c m2))))))"

text \<open>
  The body of the goroutine that \<open>acceptLoop\<close> starts for a connection: when
  \<open>handleConn\<close> returns an error, the connection is closed.
\<close>

definition serveConn :: "codecs \<Rightarrow> conn_id \<Rightarrow> RelayManager \<Rightarrow> RelayManager" where
  "serveConn pb c m =
     (case handleConn pb c m of
        (None, m1) \<Rightarrow> m1
      | (Some e, m1) \<Rightarrow> m1\<lparr>conns := (conns m1)(c := conn_Close (conns m1 c))\<rparr>)"

text \<open>
  \<open>gc\<close>: one pass over the entries of the map. An entry is dropped, and its sides closed,
  when it has expired and a side is missing.
\<close>

definition gc_entry :: "Time \<Rightarrow> 64 word \<times> nat \<Rightarrow> RelayManager \<Rightarrow> RelayManager" where
  "gc_entry now e m =
     (case e of (sid, p) \<Rightarrow>
        let a = heap m ! p
        in if sint (time_Sub now (created a)) > sint (ttl a)
           then if sideS a = None \<or> sideC a = None
                then m\<lparr>conns := allocation_Close a (conns m),
                       allocations := AList.delete sid (allocations m)\<rparr>
                else m
           else m)"

fun gc_loop :: "Time \<Rightarrow> (64 word \<times> nat) list \<Rightarrow> RelayManager \<Rightarrow> RelayManager" where
  "gc_loop now [] m = m"
| "gc_loop now (e # es) m = gc_loop now es (gc_entry now e m)"

definition gc :: "Time \<Rightarrow> RelayManager \<Rightarrow> RelayManager" where
  "gc now m = gc_loop now (allocations m) m"

text \<open>
  The steps of the goroutines. Each is defined only while its goroutine runs. A
  goroutine started under \<open>m.wg.Add(1)\<close> ends with \<open>m.wg.Done()\<close>.

  \<open>acceptLoop_step\<close> is one turn of the accept loop: \<open>Accept\<close> yields a connection
  (only while the listener is open, and never one that it has yielded before) and a
  handler is started for it, or it fails and the loop returns if the context is
  cancelled and goes on otherwise.
\<close>

definition acceptLoop_step :: "conn_id option \<Rightarrow> RelayManager \<Rightarrow> RelayManager option" where
  "acceptLoop_step r m =
     (if AcceptLoop \<notin> set (tasks m) then None
      else (case r of
        None \<Rightarrow>
          if ctx_done m
          then Some (m\<lparr>wg := wg m - 1, tasks := remove1 AcceptLoop (tasks m)\<rparr>)
          else Some m
      | Some c \<Rightarrow>
          if lis m \<noteq> Some True \<or> c \<in> set (accepted m) then None
          else Some (m\<lparr>wg := wg m + 1, tasks := tasks m @ [Handler c],
                       accepted := c # accepted m\<rparr>)))"

definition handler_step :: "codecs \<Rightarrow> conn_id \<Rightarrow> RelayManager \<Rightarrow> RelayManager option" where
  "handler_step pb c m =
     (if Handler c \<notin> set (tasks m) then None
      else let m1 = serveConn pb c m
        in Some (m1\<lparr>wg := wg m1 - 1, tasks := remove1 (Handler c) (tasks m1)\<rparr>))"

text \<open>
  One turn of the collector loop: the ticker fires at \<open>now\<close> and \<open>gc\<close> runs, or the
  context is done and the loop returns.
\<close>

definition gcLoop_step :: "Time option \<Rightarrow> RelayManager \<Rightarrow> RelayManager option" where
  "gcLoop_step tick m =
     (if GcLoop \<notin> set (tasks m) then None
      else (case tick of
        Some now \<Rightarrow> Some (gc now m)
      | None \<Rightarrow>
          if ctx_done m
          then Some (m\<lparr>wg := wg m - 1, tasks := remove1 GcLoop (tasks m)\<rparr>)
          else None))"

text \<open>
  The end of \<open>startBridge\<close>, once both copy directions have finished: each direction
  closes the allocation on its way out, then the entry is deleted.
\<close>

definition startBridge_finish :: "64 word \<Rightarrow> nat \<Rightarrow> RelayManager \<Rightarrow> RelayManager option" where
  "startBridge_finish sid p m =
     (if Bridge sid p \<notin> set (tasks m) then None
      else Some (m\<lparr>conns := allocation_Close (heap m ! p) (conns m),
                   allocations := AList.delete sid (allocations m),
                   tasks := remove1 (Bridge sid p) (tasks m)\<rparr>))"

text \<open>
  \<open>Stop\<close> in two parts. \<open>Stop_begin\<close> cancels the context and closes the listener.
  \<open>m.wg.Wait()\<close> then blocks until the counter is zero, so \<open>Stop_end\<close>, which closes every
  allocation left in the map and replaces the map by an empty one, is defined only
  then. \<open>Stop\<close> is the run in which no other goroutine takes a step in between.
\<close>

definition Stop_begin :: "RelayManager \<Rightarrow> RelayManager" where
  "Stop_begin m =
     m\<lparr>ctx_done := (if cancel m then True else ctx_done m),
       lis := (case lis m of None \<Rightarrow> None | Some _ \<Rightarrow> Some False)\<rparr>"

definition Stop_end :: "RelayManager \<Rightarrow> RelayManager option" where
  "Stop_end m =
     (if wg m \<noteq> 0 then None
      else Some (m\<lparr>conns := fold (\<lambda>e. allocation_Close (heap m ! snd e)) (allocations m) (conns m),
                   allocations := []\<rparr>))"

definition Stop :: "RelayManager \<Rightarrow> RelayManager option" where
  "Stop m = Stop_end (Stop_begin m)"

section \<open>Invariants of the manager\<close>

text \<open>
  The map of allocations has one entry per stream id, no two entries share an
  allocation, and every pointer in it is allocated.
\<close>

definition table_ok :: "RelayManager \<Rightarrow> bool" where
  "table_ok m \<longleftrightarrow>
     distinct (map fst (allocations m)) \<and> distinct (map snd (allocations m))
     \<and> list_all (\<lambda>e. snd e < length (heap m)) (allocations m)"

text \<open>An allocation holds a connection when one of its sides is that connection.\<close>

definition holds_conn :: "allocation \<Rightarrow> conn_id \<Rightarrow> bool" where
  "holds_conn a c \<longleftrightarrow> sideS a = Some c \<or> sideC a = Some c"


text \<open>
  The allocation at pointer \<open>q\<close> holds the connection \<open>x\<close>; and the bookkeeping of the
  connections that every run keeps: no connection is held by two allocations, a
  connection that is held has been accepted and has no handler running any more, every
  running handler is that of an accepted connection, and no connection has two handlers.
\<close>

definition held :: "RelayManager \<Rightarrow> nat \<Rightarrow> conn_id \<Rightarrow> bool" where
  "held m q x \<longleftrightarrow> q < length (heap m) \<and> holds_conn (heap m ! q) x"


text \<open>
  What handling the connection \<open>c\<close> can do to a manager, the connections apart: nothing,
  or put \<open>c\<close> into one allocation and perhaps start a bridge.
\<close>

definition handled :: "conn_id \<Rightarrow> RelayManager \<Rightarrow> RelayManager \<Rightarrow> bool" where
  "handled c m m' \<longleftrightarrow>
     accepted m' = accepted m \<and> allocations m' = allocations m
     \<and> length (heap m') = length (heap m)
     \<and> (tasks m' = tasks m \<or> (\<exists>sid p. tasks m' = tasks m @ [Bridge sid p]))
     \<and> (\<exists>p. \<forall>q x. held m' q x \<longrightarrow> held m q x \<or> (q = p \<and> x = c))"


text \<open>Two states of the manager that differ at most in the connections.\<close>

definition same_but_conns :: "RelayManager \<Rightarrow> RelayManager \<Rightarrow> bool" where
  "same_but_conns m m' \<longleftrightarrow>
     heap m' = heap m \<and> tasks m' = tasks m \<and> allocations m' = allocations m \<and> wg m' = wg m
     \<and> lis m' = lis m \<and> cancel m' = cancel m \<and> ctx_done m' = ctx_done m
     \<and> listenAddr m' = listenAddr m \<and> accepted m' = accepted m"



section \<open>Runs of the manager\<close>

text \<open>
  What can happen to a manager, one event at a time: the calls of its methods, the turns
  of its loops, the handlers and the ends of the bridges. A run is a list of events, each
  taken to the end before the next starts; it is \<open>None\<close> when an event cannot happen in
  the state it meets (its goroutine is not running, or \<open>Stop\<close> would still wait).
\<close>

datatype event =
    CallStart bool
  | CallCreateStream "byte list" Time peer_ID peer_ID Duration
  | Accept "conn_id option"
  | Handle conn_id
  | Tick "Time option"
  | BridgeEnd "64 word" nat
  | CallStopBegin
  | CallStopEnd

fun step :: "codecs \<Rightarrow> event \<Rightarrow> RelayManager \<Rightarrow> RelayManager option" where
  "step pb (CallStart ok) m = Some (snd (Start ok m))"
| "step pb (CallCreateStream rnd now srv cli d) m = Some (snd (CreateStream rnd now srv cli d m))"
| "step pb (Accept r) m = acceptLoop_step r m"
| "step pb (Handle c) m = handler_step pb c m"
| "step pb (Tick t) m = gcLoop_step t m"
| "step pb (BridgeEnd sid p) m = startBridge_finish sid p m"
| "step pb CallStopBegin m = Some (Stop_begin m)"
| "step pb CallStopEnd m = Stop_end m"

fun run :: "codecs \<Rightarrow> event list \<Rightarrow> RelayManager \<Rightarrow> RelayManager option" where
  "run pb [] m = Some m"
| "run pb (ev # evs) m = (case step pb ev m of None \<Rightarrow> None | Some m1 \<Rightarrow> run pb evs m1)"

section \<open>Sample values\<close>

text \<open>
  Values to run the definitions on. \<open>sample_codecs\<close> stands in for the protobuf
  encoding: a request is the stream id in eight bytes, least significant first, followed
  by the sender's peer id; an acknowledgement is one byte for \<open>ok\<close> followed by the
  error text; a peer id is valid when it is not empty.
\<close>

definition sample_codecs :: codecs where
  "sample_codecs =
     \<lparr>Unmarshal_HandshakeRequest =
        (\<lambda>bs. if length bs < 8 then None
              else Some \<lparr>StreamId = Uint64 bs, SenderPeerId = drop 8 bs\<rparr>),
      Marshal_HandshakeAck =
        (\<lambda>ack. (if Ok ack then 1 else 0) # map (\<lambda>ch. of_nat (of_char ch)) (Error ack)),
      IDFromBytes = (\<lambda>bs. if bs = [] then None else Some bs)\<rparr>"

definition tokenK :: "byte list" where
  "tokenK = replicate 32 0xAA"

definition tokenK2 :: "byte list" where
  "tokenK2 = replicate 32 0xBB"

definition peerS :: peer_ID where
  "peerS = [0x53]"

definition peerC :: peer_ID where
  "peerC = [0x43]"

definition request7 :: "byte list \<Rightarrow> byte list" where
  "request7 sender = [7, 0, 0, 0, 0, 0, 0, 0] @ sender"

definition idle_conn :: netconn where
  "idle_conn = \<lparr>rbuf = [], wbuf = [], wfail = False, closed = False\<rparr>"

text \<open>A connection on which the peer has sent the given bytes.\<close>

definition conn_with :: "byte list \<Rightarrow> netconn" where
  "conn_with bs = \<lparr>rbuf = bs, wbuf = [], wfail = False, closed = False\<rparr>"

definition request999 :: "byte list \<Rightarrow> byte list" where
  "request999 sender = [0xE7, 0x03, 0, 0, 0, 0, 0, 0] @ sender"

text \<open>
  A manager that has been started and holds two allocations, both created at instant 0
  with a time to live of one second: stream 12, bridged between the connections 1 and
  2, and stream 7 under the token \<open>tokenK\<close>, whose client side is connection 3 and
  whose server side is still empty. Connection 5 carries a request for stream 7 signed
  with the other token, connection 6 the same request signed with \<open>tokenK\<close>, connection 8
  a request for the unknown stream 999.
\<close>

definition sample_net :: "conn_id \<Rightarrow> netconn" where
  "sample_net =
     (\<lambda>_. idle_conn)
       (5 := conn_with (relayFrameBuf RelayTypeHandshakeRequest tokenK2 (request7 peerC)),
        6 := conn_with (relayFrameBuf RelayTypeHandshakeRequest tokenK (request7 peerC)),
        8 := conn_with (relayFrameBuf RelayTypeHandshakeRequest tokenK (request999 peerC)))"

definition sample_manager :: RelayManager where
  "sample_manager =
     \<lparr>listenAddr = '':24002'',
      allocations = [(12, 0), (7, 1)],
      heap =
        [\<lparr>streamID = 12, token = tokenK2, serverPeerID = peerS, clientPeerID = peerC,
          sideS = Some 1, sideC = Some 2, created = 0, ttl = 1000000000\<rparr>,
         \<lparr>streamID = 7, token = tokenK, serverPeerID = peerS, clientPeerID = peerC,
          sideS = None, sideC = Some 3, created = 0, ttl = 1000000000\<rparr>],
      conns = sample_net, wg = 2, lis = Some True, cancel = True, ctx_done = False,
      tasks = [AcceptLoop, GcLoop, Bridge 12 0], accepted = [3, 2, 1]\<rparr>"

text \<open>
  A run that ends with \<open>Stop\<close>: the manager is started, a stream is created (the random
  bytes decode to the id 7 and the token \<open>tokenK\<close>), the server peer and then the client
  peer connect and are handled, \<open>Stop\<close> cancels and closes the listener, the two loops
  return, and \<open>Stop\<close> goes on after its wait.
\<close>

definition stop_rnd :: "byte list" where
  "stop_rnd = [7, 0, 0, 0, 0, 0, 0, 0] @ tokenK"

definition stop_net :: "conn_id \<Rightarrow> netconn" where
  "stop_net =
     (\<lambda>_. idle_conn)
       (1 := conn_with (relayFrameBuf RelayTypeHandshakeRequest tokenK (request7 peerS)),
        2 := conn_with (relayFrameBuf RelayTypeHandshakeRequest tokenK (request7 peerC)))"

definition stop_run :: "event list" where
  "stop_run =
     [CallStart True,
      CallCreateStream stop_rnd 0 peerS peerC 60000000000,
      Accept (Some 1), Handle 1, Accept (Some 2), Handle 2,
      CallStopBegin, Accept None, Tick None, CallStopEnd]"

text \<open>
  Two states of the sample run: \<open>created_manager\<close> after the call of \<open>CreateStream\<close>
  alone, with stream 7 allocated and no side installed, and \<open>waiting_manager\<close> at the
  moment at which the wait of \<open>Stop\<close> is over, with stream 7 bridged.
\<close>

definition waiting_manager :: RelayManager where
  "waiting_manager =
     \<lparr>listenAddr = '':24002'', allocations = [(7, 0)],
      heap = [\<lparr>streamID = 7, token = tokenK, serverPeerID = peerS, clientPeerID = peerC,
               sideS = Some 1, sideC = Some 2, created = 0, ttl = 60000000000\<rparr>],
      conns = stop_net(1 := (conn_with [])\<lparr>wbuf := relayFrameBuf RelayTypeHandshakeAck tokenK
                  (Marshal_HandshakeAck sample_codecs \<lparr>Ok = True, Error = []\<rparr>)\<rparr>,
               2 := (conn_with [])\<lparr>wbuf := relayFrameBuf RelayTypeHandshakeAck tokenK
                  (Marshal_HandshakeAck sample_codecs \<lparr>Ok = True, Error = []\<rparr>)\<rparr>),
      wg = 0, lis = Some False, cancel = True, ctx_done = True,
      tasks = [Bridge 7 0], accepted = [2, 1]\<rparr>"

section \<open>Facts about the framing\<close>

lemma Uint16_PutUint16: "Uint16 (PutUint16 v) = v"
  unfolding PutUint16_def
  apply simp
  apply (rule bit_word_eqI)
  apply (auto simp add: bit_simps)
  done

lemma length_PutUint16: "length (PutUint16 v) = 2"
  by (simp add: PutUint16_def)

lemma unat_len16: "n \<le> 65535 \<Longrightarrow> unat (word_of_nat n :: 16 word) = n"
  by (simp add: unat_of_nat)

lemma length_sha256_round: "length s = 8 \<Longrightarrow> length (sha256_round s kw) = 8"
  by (cases "(s, kw)" rule: sha256_round.cases) (simp_all add: Let_def)

lemma length_foldl_round: "length s = 8 \<Longrightarrow> length (foldl sha256_round s kws) = 8"
  by (induction kws arbitrary: s) (simp_all add: length_sha256_round)

lemma length_sha256_block: "length hs = 8 \<Longrightarrow> length (sha256_block hs blk) = 8"
  by (simp add: sha256_block_def Let_def length_foldl_round)

lemma length_sha256_blocks: "length hs = 8 \<Longrightarrow> length (sha256_blocks n hs bs) = 8"
  by (induction n arbitrary: hs bs) (simp_all add: length_sha256_block)

lemma length_concat_be4: "length (concat (map (be_bytes 4) ws)) = 4 * length ws"
  by (induction ws) (simp_all add: be_bytes_def)

lemma length_sha256: "length (sha256 msg) = 32"
  by (simp add: sha256_def Let_def length_concat_be4 length_sha256_blocks sha256_init_def)

lemma length_hmac_sha256: "length (hmac_sha256 key msg) = 32"
  by (simp add: hmac_sha256_def Let_def length_sha256)

lemma length_buildRelayHMAC: "length (buildRelayHMAC tok hdr data) = 32"
  by (simp add: buildRelayHMAC_def length_hmac_sha256)

lemma conn_ReadFull_append:
  "\<not> closed r \<Longrightarrow> rbuf r = xs @ ys \<Longrightarrow> length xs = n \<Longrightarrow>
   conn_ReadFull n r = (None, xs, r\<lparr>rbuf := ys\<rparr>)"
  by (simp add: conn_ReadFull_def io_ReadFull_def)

text \<open>Reading back a frame that \<open>WriteRelayFrame\<close> composed, whatever follows it.\<close>

lemma ReadRelayFrameRaw_frame:
  assumes len: "length data \<le> 65535" and opn: "\<not> closed r"
    and buf: "rbuf r = relayFrameBuf typ tok data @ rest"
  shows "ReadRelayFrameRaw r =
           (Inr (relayFrameHeader typ data, data, buildRelayHMAC tok (relayFrameHeader typ data) data),
            r\<lparr>rbuf := rest\<rparr>)"
proof -
  let ?hdr = "relayFrameHeader typ data"
  let ?tag = "buildRelayHMAC tok ?hdr data"
  have L: "unat (Length ?hdr) = length data"
    using len by (simp add: relayFrameHeader_def unat_len16)
  have L0: "(0 < Length ?hdr) = (0 < length data)"
    using L by (simp add: word_less_nat_alt)
  have b0: "rbuf r = relayMagic @ (PutUint16 (Length ?hdr) @ [relayVersion] @ [typ] @ data @ ?tag @ rest)"
    using buf by (simp add: relayFrameBuf_def Let_def relayFrameHeader_def)
  have s1: "conn_ReadFull 4 r = (None, relayMagic,
      r\<lparr>rbuf := PutUint16 (Length ?hdr) @ [relayVersion] @ [typ] @ data @ ?tag @ rest\<rparr>)"
    by (rule conn_ReadFull_append [OF opn b0]) (simp add: relayMagic_def)
  have s2: "conn_ReadFull 2 (r\<lparr>rbuf := PutUint16 (Length ?hdr) @ [relayVersion] @ [typ] @ data @ ?tag @ rest\<rparr>)
      = (None, PutUint16 (Length ?hdr), r\<lparr>rbuf := [relayVersion] @ [typ] @ data @ ?tag @ rest\<rparr>)"
    using opn by (simp add: conn_ReadFull_def io_ReadFull_def length_PutUint16)
  have s3: "conn_ReadFull 1 (r\<lparr>rbuf := [relayVersion] @ [typ] @ data @ ?tag @ rest\<rparr>)
      = (None, [relayVersion], r\<lparr>rbuf := [typ] @ data @ ?tag @ rest\<rparr>)"
    using opn by (simp add: conn_ReadFull_def io_ReadFull_def)
  have s4: "conn_ReadFull 1 (r\<lparr>rbuf := [typ] @ data @ ?tag @ rest\<rparr>)
      = (None, [typ], r\<lparr>rbuf := data @ ?tag @ rest\<rparr>)"
    using opn by (simp add: conn_ReadFull_def io_ReadFull_def)
  have s5: "conn_ReadFull (length data) (r\<lparr>rbuf := data @ ?tag @ rest\<rparr>)
      = (None, data, r\<lparr>rbuf := ?tag @ rest\<rparr>)"
    using opn by (simp add: conn_ReadFull_def io_ReadFull_def)
  have s6: "conn_ReadFull 32 (r\<lparr>rbuf := ?tag @ rest\<rparr>) = (None, ?tag, r\<lparr>rbuf := rest\<rparr>)"
    using opn by (simp add: conn_ReadFull_def io_ReadFull_def length_buildRelayHMAC)
  have hdr_eq: "\<lparr>Length = Uint16 (PutUint16 (Length ?hdr)), Version = relayVersion, Type = typ\<rparr> = ?hdr"
    by (simp add: Uint16_PutUint16 relayFrameHeader_def)
  show ?thesis
  proof (cases "length data = 0")
    case True
    then have d: "data = []" by simp
    show ?thesis
      unfolding ReadRelayFrameRaw_def s1
      using s2 s3 s4 s6 hdr_eq L0 d by (simp add: Let_def Uint16_PutUint16)
  next
    case False
    then show ?thesis
      unfolding ReadRelayFrameRaw_def s1
      using s2 s3 s4 s5 s6 hdr_eq L0 L by (simp add: Let_def Uint16_PutUint16)
  qed
qed

lemma WriteRelayFrame_ok:
  "length data \<le> 65535 \<Longrightarrow> \<not> closed w \<Longrightarrow> \<not> wfail w \<Longrightarrow>
   WriteRelayFrame w typ tok data = (None, w\<lparr>wbuf := wbuf w @ relayFrameBuf typ tok data\<rparr>)"
  by (simp add: WriteRelayFrame_def conn_Write_def)

lemma VerifyRelayHMAC_same: "VerifyRelayHMAC hdr tok data (buildRelayHMAC tok hdr data) = None"
  by (simp add: VerifyRelayHMAC_def)

text \<open>The tags of the sample request under the two sample tokens, computed.\<close>

lemma tag_tokenK:
  "buildRelayHMAC tokenK (relayFrameHeader RelayTypeHandshakeRequest (request7 peerC)) (request7 peerC) =
     [0x21, 0x3d, 0xac, 0x83, 0x1a, 0x10, 0x2d, 0xaf, 0x98, 0x8f, 0x79, 0x5a, 0xc8, 0x7a, 0x9a, 0x21,
      0x78, 0x1f, 0x74, 0xeb, 0xb7, 0xd7, 0x24, 0x44, 0x39, 0xac, 0x47, 0x9e, 0x1a, 0x22, 0x54, 0xc1]"
  by code_simp

lemma tag_tokenK2:
  "buildRelayHMAC tokenK2 (relayFrameHeader RelayTypeHandshakeRequest (request7 peerC)) (request7 peerC) =
     [0x4c, 0x63, 0xaa, 0x39, 0x50, 0xcd, 0x62, 0xd2, 0xad, 0x44, 0xa3, 0xd7, 0x3d, 0x6e, 0x7d, 0xb5,
      0xff, 0x31, 0x7f, 0x37, 0x85, 0x86, 0x00, 0x2c, 0x96, 0x0a, 0x3d, 0x50, 0xc6, 0xab, 0xb3, 0xe3]"
  by code_simp

lemma tags_differ:
  "buildRelayHMAC tokenK (relayFrameHeader RelayTypeHandshakeRequest (request7 peerC)) (request7 peerC)
   \<noteq> buildRelayHMAC tokenK2 (relayFrameHeader RelayTypeHandshakeRequest (request7 peerC)) (request7 peerC)"
  unfolding tag_tokenK tag_tokenK2 by simp

section \<open>Claims about the framing\<close>

text \<open>
  Claim C2. For every token, type byte and data of at most 65535 bytes, \<open>WriteRelayFrame\<close>
  on a writer that takes the write succeeds and appends exactly the frame; and
  \<open>ReadRelayFrameRaw\<close> on these bytes returns a header with the same type and with the
  length of the data, the same data, and a 32-byte tag that \<open>VerifyRelayHMAC\<close> accepts
  under the same token.
\<close>

theorem relay_frame_roundtrip:
  assumes "length data \<le> 65535" and "\<not> closed w" and "\<not> wfail w"
    and "\<not> closed r" and "rbuf r = relayFrameBuf typ tok data"
  shows "WriteRelayFrame w typ tok data = (None, w\<lparr>wbuf := wbuf w @ relayFrameBuf typ tok data\<rparr>)
       \<and> ReadRelayFrameRaw r =
           (Inr (relayFrameHeader typ data, data, buildRelayHMAC tok (relayFrameHeader typ data) data),
            r\<lparr>rbuf := []\<rparr>)
       \<and> Type (relayFrameHeader typ data) = typ
       \<and> unat (Length (relayFrameHeader typ data)) = length data
       \<and> length (buildRelayHMAC tok (relayFrameHeader typ data) data) = 32
       \<and> VerifyRelayHMAC (relayFrameHeader typ data) tok data
            (buildRelayHMAC tok (relayFrameHeader typ data) data) = None"
proof -
  have rd: "ReadRelayFrameRaw r =
           (Inr (relayFrameHeader typ data, data, buildRelayHMAC tok (relayFrameHeader typ data) data),
            r\<lparr>rbuf := []\<rparr>)"
    using ReadRelayFrameRaw_frame [of data r "typ" tok "[]"] assms by simp
  have ln: "unat (Length (relayFrameHeader typ data)) = length data"
    using assms(1) by (simp add: relayFrameHeader_def unat_len16)
  show ?thesis
    using rd ln assms
    by (simp add: WriteRelayFrame_ok VerifyRelayHMAC_same length_buildRelayHMAC relayFrameHeader_def)
qed

theorem relay_frame_roundtrip_witness:
  "length (request7 peerC) \<le> 65535 \<and> \<not> closed idle_conn \<and> \<not> wfail idle_conn
   \<and> \<not> closed (conn_with (relayFrameBuf 1 tokenK (request7 peerC)))
   \<and> rbuf (conn_with (relayFrameBuf 1 tokenK (request7 peerC))) = relayFrameBuf 1 tokenK (request7 peerC)
   \<and> WriteRelayFrame idle_conn 1 tokenK (request7 peerC)
       = (None, idle_conn\<lparr>wbuf := wbuf idle_conn @ relayFrameBuf 1 tokenK (request7 peerC)\<rparr>)
   \<and> ReadRelayFrameRaw (conn_with (relayFrameBuf 1 tokenK (request7 peerC))) =
           (Inr (relayFrameHeader 1 (request7 peerC), request7 peerC,
                 buildRelayHMAC tokenK (relayFrameHeader 1 (request7 peerC)) (request7 peerC)),
            (conn_with (relayFrameBuf 1 tokenK (request7 peerC)))\<lparr>rbuf := []\<rparr>)
   \<and> VerifyRelayHMAC (relayFrameHeader 1 (request7 peerC)) tokenK (request7 peerC)
            (buildRelayHMAC tokenK (relayFrameHeader 1 (request7 peerC)) (request7 peerC)) = None"
proof -
  have h1: "length (request7 peerC) \<le> 65535" by (simp add: request7_def peerC_def)
  have h2: "\<not> closed idle_conn" by (simp add: idle_conn_def)
  have h3: "\<not> wfail idle_conn" by (simp add: idle_conn_def)
  have h4: "\<not> closed (conn_with (relayFrameBuf 1 tokenK (request7 peerC)))" by (simp add: conn_with_def)
  have h5: "rbuf (conn_with (relayFrameBuf 1 tokenK (request7 peerC))) = relayFrameBuf 1 tokenK (request7 peerC)"
    by (simp add: conn_with_def)
  from relay_frame_roundtrip [OF h1 h2 h3 h4 h5] h1 h2 h3 h4 h5 show ?thesis by blast
qed

text \<open>
  Claim C8. Both frame writers take data of exactly 65535 bytes (on a writer that takes
  the write) and refuse data of 65536 bytes or more with their too-large error, leaving
  the writer as it was: no byte is written.
\<close>

theorem frame_size_limit:
  "(length data = 65535 \<and> \<not> closed w \<and> \<not> wfail w \<longrightarrow>
      WriteRelayFrame w typ tok data = (None, w\<lparr>wbuf := wbuf w @ relayFrameBuf typ tok data\<rparr>)
      \<and> WriteControlFrame w ctyp data =
          (None, w\<lparr>wbuf := wbuf w @ PutUint16 0xFFFF @ PutUint16 ctyp @ data\<rparr>))
   \<and> (length data \<ge> 65536 \<longrightarrow>
      WriteRelayFrame w typ tok data = (Some (ErrFrameTooLarge (length data)), w)
      \<and> WriteControlFrame w ctyp data = (Some ErrTooLarge, w))"
proof (intro conjI impI)
  assume a: "length data = 65535 \<and> \<not> closed w \<and> \<not> wfail w"
  then show "WriteRelayFrame w typ tok data = (None, w\<lparr>wbuf := wbuf w @ relayFrameBuf typ tok data\<rparr>)"
    by (simp add: WriteRelayFrame_ok)
  have "data \<noteq> []" using a by auto
  with a show "WriteControlFrame w ctyp data =
          (None, w\<lparr>wbuf := wbuf w @ PutUint16 0xFFFF @ PutUint16 ctyp @ data\<rparr>)"
    by (simp add: WriteControlFrame_def conn_Write_def)
next
  assume "65536 \<le> length data"
  then show "WriteRelayFrame w typ tok data = (Some (ErrFrameTooLarge (length data)), w)"
    by (simp add: WriteRelayFrame_def)
next
  assume "65536 \<le> length data"
  then show "WriteControlFrame w ctyp data = (Some ErrTooLarge, w)"
    by (simp add: WriteControlFrame_def)
qed

theorem frame_size_limit_witness:
  "length (replicate 65535 (0::byte)) = 65535 \<and> \<not> closed idle_conn \<and> \<not> wfail idle_conn
   \<and> WriteRelayFrame idle_conn RelayTypeHandshakeAck tokenK (replicate 65535 0)
       = (None, idle_conn\<lparr>wbuf := wbuf idle_conn
                  @ relayFrameBuf RelayTypeHandshakeAck tokenK (replicate 65535 0)\<rparr>)
   \<and> WriteControlFrame idle_conn 0x0202 (replicate 65535 0)
       = (None, idle_conn\<lparr>wbuf := wbuf idle_conn @ PutUint16 0xFFFF @ PutUint16 0x0202
                  @ replicate 65535 0\<rparr>)
   \<and> length (replicate 65536 (0::byte)) \<ge> 65536
   \<and> WriteRelayFrame idle_conn RelayTypeHandshakeAck tokenK (replicate 65536 0)
       = (Some (ErrFrameTooLarge (length (replicate 65536 (0::byte)))), idle_conn)
   \<and> WriteControlFrame idle_conn 0x0202 (replicate 65536 0) = (Some ErrTooLarge, idle_conn)"
proof -
  have h1: "length (replicate 65535 (0::byte)) = 65535 \<and> \<not> closed idle_conn \<and> \<not> wfail idle_conn"
    by (simp add: idle_conn_def)
  have h2: "length (replicate 65536 (0::byte)) \<ge> 65536" by simp
  from frame_size_limit [of "replicate 65535 0" idle_conn RelayTypeHandshakeAck tokenK "0x0202"]
       frame_size_limit [of "replicate 65536 0" idle_conn RelayTypeHandshakeAck tokenK "0x0202"]
       h1 h2
  show ?thesis by blast
qed

section \<open>Facts about the collector\<close>



lemma gc_entry_heap [simp]: "heap (gc_entry now e m) = heap m"
  by (cases e) (simp add: gc_entry_def Let_def)

lemma gc_loop_heap [simp]: "heap (gc_loop now es m) = heap m"
  by (induction es arbitrary: m) simp_all

lemma gc_entry_tasks [simp]: "tasks (gc_entry now e m) = tasks m \<and> wg (gc_entry now e m) = wg m"
  by (cases e) (simp add: gc_entry_def Let_def)

lemma gc_loop_tasks [simp]: "tasks (gc_loop now es m) = tasks m \<and> wg (gc_loop now es m) = wg m"
  by (induction es arbitrary: m) simp_all








section \<open>Facts about the handler\<close>

lemma conn_ReadFull_keeps:
  "conn_ReadFull n r = (e, buf, r') \<Longrightarrow> \<exists>bs. r' = r\<lparr>rbuf := bs\<rparr>"
proof (cases "closed r")
  case True
  assume "conn_ReadFull n r = (e, buf, r')"
  with True have "r' = r\<lparr>rbuf := rbuf r\<rparr>" by (simp add: conn_ReadFull_def)
  then show ?thesis by blast
next
  case False
  assume "conn_ReadFull n r = (e, buf, r')"
  with False show ?thesis
    by (auto simp add: conn_ReadFull_def split: prod.splits)
qed

lemma conn_ReadFull_closed: "closed r \<Longrightarrow> fst (conn_ReadFull n r) = Some ErrIO"
  by (simp add: conn_ReadFull_def)

lemma ReadRelayFrameRaw_closed: "closed r \<Longrightarrow> ReadRelayFrameRaw r = (Inl ErrIO, r)"
  by (simp add: ReadRelayFrameRaw_def conn_ReadFull_def)

lemma ReadRelayFrameRaw_keeps:
  assumes "ReadRelayFrameRaw r = (x, r')"
  shows "\<exists>bs. r' = r\<lparr>rbuf := bs\<rparr>"
proof -
  obtain e1 b1 r1 where s1: "conn_ReadFull 4 r = (e1, b1, r1)" by (cases "conn_ReadFull 4 r") auto
  obtain e2 b2 r2 where s2: "conn_ReadFull 2 r1 = (e2, b2, r2)" by (cases "conn_ReadFull 2 r1") auto
  obtain e3 b3 r3 where s3: "conn_ReadFull 1 r2 = (e3, b3, r3)" by (cases "conn_ReadFull 1 r2") auto
  obtain e4 b4 r4 where s4: "conn_ReadFull 1 r3 = (e4, b4, r4)" by (cases "conn_ReadFull 1 r3") auto
  obtain e5 b5 r5 where s5: "conn_ReadFull (unat (Uint16 b2)) r4 = (e5, b5, r5)"
    by (cases "conn_ReadFull (unat (Uint16 b2)) r4") auto
  obtain e6 b6 r6 where s6: "conn_ReadFull 32 r5 = (e6, b6, r6)" by (cases "conn_ReadFull 32 r5") auto
  obtain e7 b7 r7 where s7: "conn_ReadFull 32 r4 = (e7, b7, r7)" by (cases "conn_ReadFull 32 r4") auto
  from conn_ReadFull_keeps [OF s1] obtain a1 where k1: "r1 = r\<lparr>rbuf := a1\<rparr>" by blast
  from conn_ReadFull_keeps [OF s2] k1 obtain a2 where k2: "r2 = r\<lparr>rbuf := a2\<rparr>" by auto
  from conn_ReadFull_keeps [OF s3] k2 obtain a3 where k3: "r3 = r\<lparr>rbuf := a3\<rparr>" by auto
  from conn_ReadFull_keeps [OF s4] k3 obtain a4 where k4: "r4 = r\<lparr>rbuf := a4\<rparr>" by auto
  from conn_ReadFull_keeps [OF s5] k4 obtain a5 where k5: "r5 = r\<lparr>rbuf := a5\<rparr>" by auto
  from conn_ReadFull_keeps [OF s6] k5 obtain a6 where k6: "r6 = r\<lparr>rbuf := a6\<rparr>" by auto
  from conn_ReadFull_keeps [OF s7] k4 obtain a7 where k7: "r7 = r\<lparr>rbuf := a7\<rparr>" by auto
  have "r' \<in> {r1, r2, r3, r4, r5, r6, r7}"
    using assms s1 s2 s3 s4 s5 s6 s7
    by (auto simp add: ReadRelayFrameRaw_def Let_def split: option.splits if_splits)
  with k1 k2 k3 k4 k5 k6 k7 show ?thesis by blast
qed

lemma ReadRelayFrameRaw_Inr:
  assumes "ReadRelayFrameRaw r = (Inr x, r')"
  shows "\<not> closed r \<and> wbuf r' = wbuf r \<and> wfail r' = wfail r \<and> closed r' = closed r"
proof -
  have "\<not> closed r" using assms ReadRelayFrameRaw_closed [of r] by auto
  moreover from ReadRelayFrameRaw_keeps [OF assms] obtain bs where "r' = r\<lparr>rbuf := bs\<rparr>" by blast
  ultimately show ?thesis by simp
qed

lemma writeAck_frame [simp]:
  "allocations (snd (writeAck pb c tok ack m)) = allocations m"
  "heap (snd (writeAck pb c tok ack m)) = heap m"
  "tasks (snd (writeAck pb c tok ack m)) = tasks m"
  "wg (snd (writeAck pb c tok ack m)) = wg m"
  by (simp_all add: writeAck_def split: prod.splits)

lemma writeAck_other: "c' \<noteq> c \<Longrightarrow> conns (snd (writeAck pb c tok ack m)) c' = conns m c'"
  by (simp add: writeAck_def split: prod.splits)

lemma writeAck_ok:
  assumes "\<not> closed (conns m c)" and "\<not> wfail (conns m c)"
    and "length (Marshal_HandshakeAck pb ack) \<le> 65535"
  shows "writeAck pb c tok ack m =
           (None, m\<lparr>conns := (conns m)(c := (conns m c)\<lparr>wbuf := wbuf (conns m c)
              @ relayFrameBuf RelayTypeHandshakeAck tok (Marshal_HandshakeAck pb ack)\<rparr>)\<rparr>)"
  using assms by (simp add: writeAck_def WriteRelayFrame_ok)

lemma writeAck_closed: "closed (conns (snd (writeAck pb c tok ack m)) c) = closed (conns m c)"
  by (auto simp add: writeAck_def WriteRelayFrame_def conn_Write_def split: prod.splits if_splits)

text \<open>The handler up to the lookup, when a well-formed request has arrived.\<close>

lemma handleConn_request:
  assumes "ReadRelayFrameRaw (conns m c) = (Inr (hdr, data, hsum), nc)"
    and "Type hdr = RelayTypeHandshakeRequest"
    and "Unmarshal_HandshakeRequest pb data = Some req"
  shows "handleConn pb c m =
     (let m1 = m\<lparr>conns := (conns m)(c := nc)\<rparr>
      in case map_of (allocations m) (StreamId req) of
           None \<Rightarrow>
             (Some ErrAllocationNotFound,
              snd (writeAck pb c (replicate 32 0) \<lparr>Ok = False, Error = ''no such stream''\<rparr> m1))
         | Some p \<Rightarrow>
             let a = heap m ! p
             in (case VerifyRelayHMAC hdr (token a) data hsum of
               Some err \<Rightarrow>
                 (Some err,
                  snd (writeAck pb c (token a) \<lparr>Ok = False, Error = ''hmac mismatch''\<rparr> m1))
             | None \<Rightarrow>
                 (case IDFromBytes pb (SenderPeerId req) of
                    None \<Rightarrow> (Some ErrBadPeerID, m1)
                  | Some senderPeerId \<Rightarrow>
                      if serverPeerID a \<noteq> senderPeerId \<and> clientPeerID a \<noteq> senderPeerId
                      then (Some ErrBadPeer, m1)
                      else (case writeAck pb c (token a) \<lparr>Ok = True, Error = []\<rparr> m1 of
                        (Some e, m2) \<Rightarrow> (Some (ErrWriteAck e), m2)
                      | (None, m2) \<Rightarrow>
                          installSide (serverPeerID a = senderPeerId) (StreamId req) p c m2))))"
  using assms by (simp add: handleConn_def Let_def split: option.splits prod.splits)

lemma installSide_length [simp]: "length (heap (snd (installSide b sid p c m))) = length (heap m)"
  by (simp add: installSide_def Let_def)

lemma installSide_allocations [simp]: "allocations (snd (installSide b sid p c m)) = allocations m"
  by (simp add: installSide_def Let_def)

lemma installSide_conns [simp]: "conns (snd (installSide b sid p c m)) = conns m"
  by (simp add: installSide_def Let_def)

lemma installSide_sides:
  assumes "q < length (heap m)"
  shows "(sideS (heap m ! q) \<noteq> None \<longrightarrow>
            sideS (heap (snd (installSide b sid p c m)) ! q) = sideS (heap m ! q))
       \<and> (sideC (heap m ! q) \<noteq> None \<longrightarrow>
            sideC (heap (snd (installSide b sid p c m)) ! q) = sideC (heap m ! q))"
proof (cases "q = p")
  case True
  with assms show ?thesis by (auto simp add: installSide_def Let_def)
next
  case False
  then show ?thesis by (simp add: installSide_def Let_def)
qed

text \<open>Apart from the connections, the handler changes the state only by installing a side.\<close>

lemma same_but_conns_writeAck: "same_but_conns m m1 \<Longrightarrow> same_but_conns m (snd (writeAck pb c tok ack m1))"
  by (simp add: same_but_conns_def writeAck_def split: prod.splits)

lemma handleConn_effect:
  assumes keep: "\<And>m'. same_but_conns m m' \<Longrightarrow> Q m'"
    and inst: "\<And>b sid p m2. same_but_conns m m2 \<Longrightarrow> Q (snd (installSide b sid p c m2))"
  shows "Q (snd (handleConn pb c m))"
proof (cases "ReadRelayFrameRaw (conns m c)")
  case (Pair x nc)
  let ?m1 = "m\<lparr>conns := (conns m)(c := nc)\<rparr>"
  have m1: "same_but_conns m ?m1" by (simp add: same_but_conns_def)
  show ?thesis
  proof (cases x)
    case (Inl e)
    with Pair have "snd (handleConn pb c m) = ?m1" by (simp add: handleConn_def)
    with keep [OF m1] show ?thesis by simp
  next
    case (Inr y)
    obtain hdr data hsum where y: "y = (hdr, data, hsum)" by (cases y) auto
    note rd = Pair [unfolded Inr y]
    show ?thesis
    proof (cases "Type hdr = RelayTypeHandshakeRequest")
      case False
      with rd have "snd (handleConn pb c m) = ?m1" by (simp add: handleConn_def)
      with keep [OF m1] show ?thesis by simp
    next
      case ty: True
      show ?thesis
      proof (cases "Unmarshal_HandshakeRequest pb data")
        case None
        with rd ty have "snd (handleConn pb c m) = ?m1" by (simp add: handleConn_def)
        with keep [OF m1] show ?thesis by simp
      next
        case (Some req)
        note hc = handleConn_request [OF rd ty Some]
        show ?thesis
        proof (cases "map_of (allocations m) (StreamId req)")
          case None
          then have "snd (handleConn pb c m) =
              snd (writeAck pb c (replicate 32 0) \<lparr>Ok = False, Error = ''no such stream''\<rparr> ?m1)"
            unfolding hc by (simp add: Let_def)
          with keep [OF same_but_conns_writeAck [OF m1]] show ?thesis by simp
        next
          case lk: (Some p)
          let ?a = "heap m ! p"
          show ?thesis
          proof (cases "VerifyRelayHMAC hdr (token ?a) data hsum")
            case (Some err)
            with lk have "snd (handleConn pb c m) =
                snd (writeAck pb c (token ?a) \<lparr>Ok = False, Error = ''hmac mismatch''\<rparr> ?m1)"
              unfolding hc by (simp add: Let_def)
            with keep [OF same_but_conns_writeAck [OF m1]] show ?thesis by simp
          next
            case vf: None
            show ?thesis
            proof (cases "IDFromBytes pb (SenderPeerId req)")
              case None
              with lk vf have "snd (handleConn pb c m) = ?m1"
                unfolding hc by (simp add: Let_def)
              with keep [OF m1] show ?thesis by simp
            next
              case pid: (Some sender)
              show ?thesis
              proof (cases "serverPeerID ?a \<noteq> sender \<and> clientPeerID ?a \<noteq> sender")
                case True
                with lk vf pid have "snd (handleConn pb c m) = ?m1"
                  unfolding hc by (simp add: Let_def)
                with keep [OF m1] show ?thesis by simp
              next
                case peer: False
                obtain we m2 where wa: "writeAck pb c (token ?a) \<lparr>Ok = True, Error = []\<rparr> ?m1 = (we, m2)"
                  by (cases "writeAck pb c (token ?a) \<lparr>Ok = True, Error = []\<rparr> ?m1") auto
                have m2: "same_but_conns m m2"
                  using same_but_conns_writeAck [OF m1, of pb c "token ?a" "\<lparr>Ok = True, Error = []\<rparr>"] wa
                  by simp
                show ?thesis
                proof (cases we)
                  case None
                  with lk vf pid peer wa have "snd (handleConn pb c m) =
                      snd (installSide (serverPeerID ?a = sender) (StreamId req) p c m2)"
                    unfolding hc by (auto simp add: Let_def)
                  with inst [OF m2] show ?thesis by simp
                next
                  case (Some e)
                  with lk vf pid peer wa have "snd (handleConn pb c m) = m2"
                    unfolding hc by (auto simp add: Let_def)
                  with keep [OF m2] show ?thesis by simp
                qed
              qed
            qed
          qed
        qed
      qed
    qed
  qed
qed

section \<open>Facts about the sample values\<close>

lemma Uint64_request999: "Uint64 (request999 sender) = 999"
  by (simp add: Uint64_def request999_def)

lemma Uint64_request7: "Uint64 (request7 sender) = 7"
  by (simp add: Uint64_def request7_def)

lemma read_conn_with:
  "length data \<le> 65535 \<Longrightarrow>
   ReadRelayFrameRaw (conn_with (relayFrameBuf ty tok data)) =
     (Inr (relayFrameHeader ty data, data, buildRelayHMAC tok (relayFrameHeader ty data) data),
      conn_with [])"
  using ReadRelayFrameRaw_frame [of data "conn_with (relayFrameBuf ty tok data)" ty tok "[]"]
  by (simp add: conn_with_def)

lemma sample_unmarshal999:
  "Unmarshal_HandshakeRequest sample_codecs (request999 peerC) = Some \<lparr>StreamId = 999, SenderPeerId = peerC\<rparr>"
  by (simp add: sample_codecs_def Uint64_request999) (simp add: request999_def)

lemma sample_unmarshal7:
  "Unmarshal_HandshakeRequest sample_codecs (request7 peerC) = Some \<lparr>StreamId = 7, SenderPeerId = peerC\<rparr>"
  by (simp add: sample_codecs_def Uint64_request7) (simp add: request7_def)

lemma sample_lookup:
  "map_of (allocations sample_manager) 999 = None"
  "map_of (allocations sample_manager) 7 = Some 1"
  "map_of (allocations sample_manager) 12 = Some 0"
  by (simp_all add: sample_manager_def)

section \<open>The paths of the handler\<close>

lemma writeAck_after_read:
  assumes rd: "ReadRelayFrameRaw (conns m c) = (Inr x, nc)"
    and wr: "\<not> wfail (conns m c)"
    and len: "length (Marshal_HandshakeAck pb ack) \<le> 65535"
  shows "writeAck pb c tok ack (m\<lparr>conns := (conns m)(c := nc)\<rparr>) =
           (None, m\<lparr>conns := (conns m)(c := nc\<lparr>wbuf := wbuf (conns m c)
              @ relayFrameBuf RelayTypeHandshakeAck tok (Marshal_HandshakeAck pb ack)\<rparr>)\<rparr>)"
proof -
  from ReadRelayFrameRaw_Inr [OF rd]
  have k: "\<not> closed nc" "\<not> wfail nc" "wbuf nc = wbuf (conns m c)" using wr by simp_all
  show ?thesis
    using writeAck_ok [of "m\<lparr>conns := (conns m)(c := nc)\<rparr>" c pb ack tok] k len
    by simp
qed

text \<open>An authenticated request for a side that is taken: the acknowledgement goes out, then the
  guard of the side refuses the connection.\<close>

lemma handleConn_occupied:
  assumes rd: "ReadRelayFrameRaw (conns m c) = (Inr (hdr, data, hsum), nc)"
    and ty: "Type hdr = RelayTypeHandshakeRequest"
    and um: "Unmarshal_HandshakeRequest pb data = Some req"
    and lk: "map_of (allocations m) (StreamId req) = Some p"
    and vf: "VerifyRelayHMAC hdr (token (heap m ! p)) data hsum = None"
    and pid: "IDFromBytes pb (SenderPeerId req) = Some sender"
    and occ: "(serverPeerID (heap m ! p) = sender \<and> sideS (heap m ! p) \<noteq> None)
            \<or> (serverPeerID (heap m ! p) \<noteq> sender \<and> clientPeerID (heap m ! p) = sender
                \<and> sideC (heap m ! p) \<noteq> None)"
    and wr: "\<not> wfail (conns m c)"
    and len: "length (Marshal_HandshakeAck pb \<lparr>Ok = True, Error = []\<rparr>) \<le> 65535"
  shows "handleConn pb c m =
     (Some (if serverPeerID (heap m ! p) = sender then ErrServerAlreadyBridged
            else ErrClientAlreadyBridged),
      m\<lparr>conns := (conns m)(c := nc\<lparr>wbuf := wbuf (conns m c)
           @ relayFrameBuf RelayTypeHandshakeAck (token (heap m ! p))
               (Marshal_HandshakeAck pb \<lparr>Ok = True, Error = []\<rparr>)\<rparr>)\<rparr>)"
proof -
  note wa = writeAck_after_read [OF rd wr len, of "token (heap m ! p)"]
  show ?thesis
    unfolding handleConn_request [OF rd ty um]
    using lk vf pid occ wa
    by (auto simp add: Let_def installSide_def)
qed

lemma handleConn_unknown:
  assumes rd: "ReadRelayFrameRaw (conns m c) = (Inr (hdr, data, hsum), nc)"
    and ty: "Type hdr = RelayTypeHandshakeRequest"
    and um: "Unmarshal_HandshakeRequest pb data = Some req"
    and none: "map_of (allocations m) (StreamId req) = None"
  shows "handleConn pb c m =
     (Some ErrAllocationNotFound,
      snd (writeAck pb c (replicate 32 0) \<lparr>Ok = False, Error = ''no such stream''\<rparr>
             (m\<lparr>conns := (conns m)(c := nc)\<rparr>)))"
  unfolding handleConn_request [OF rd ty um] using none by (simp add: Let_def)

lemma handleConn_mismatch:
  assumes rd: "ReadRelayFrameRaw (conns m c) = (Inr (hdr, data, hsum), nc)"
    and ty: "Type hdr = RelayTypeHandshakeRequest"
    and um: "Unmarshal_HandshakeRequest pb data = Some req"
    and lk: "map_of (allocations m) (StreamId req) = Some p"
    and bad: "VerifyRelayHMAC hdr (token (heap m ! p)) data hsum \<noteq> None"
  shows "handleConn pb c m =
     (Some ErrHMACMismatch,
      snd (writeAck pb c (token (heap m ! p)) \<lparr>Ok = False, Error = ''hmac mismatch''\<rparr>
             (m\<lparr>conns := (conns m)(c := nc)\<rparr>)))"
proof -
  from bad have v: "VerifyRelayHMAC hdr (token (heap m ! p)) data hsum = Some ErrHMACMismatch"
    by (simp add: VerifyRelayHMAC_def Let_def split: if_splits)
  show ?thesis
    unfolding handleConn_request [OF rd ty um] using lk v by (simp add: Let_def)
qed

lemma serveConn_error:
  "handleConn pb c m = (Some e, m1) \<Longrightarrow>
   serveConn pb c m = m1\<lparr>conns := (conns m1)(c := conn_Close (conns m1 c))\<rparr>"
  by (simp add: serveConn_def)

lemma sample_conns:
  "conns sample_manager 5 = conn_with (relayFrameBuf RelayTypeHandshakeRequest tokenK2 (request7 peerC))"
  "conns sample_manager 6 = conn_with (relayFrameBuf RelayTypeHandshakeRequest tokenK (request7 peerC))"
  "conns sample_manager 8 = conn_with (relayFrameBuf RelayTypeHandshakeRequest tokenK (request999 peerC))"
  by (simp_all add: sample_manager_def sample_net_def)

lemma sample_lengths:
  "length (request7 sender) \<le> 65535 \<longleftrightarrow> length sender \<le> 65527"
  "length (request999 sender) \<le> 65535 \<longleftrightarrow> length sender \<le> 65527"
  by (auto simp add: request7_def request999_def)

lemma sample_heap1:
  "heap sample_manager ! 1 =
     \<lparr>streamID = 7, token = tokenK, serverPeerID = peerS, clientPeerID = peerC,
      sideS = None, sideC = Some 3, created = 0, ttl = 1000000000\<rparr>"
  "heap sample_manager ! Suc 0 =
     \<lparr>streamID = 7, token = tokenK, serverPeerID = peerS, clientPeerID = peerC,
      sideS = None, sideC = Some 3, created = 0, ttl = 1000000000\<rparr>"
  by (simp_all add: sample_manager_def)

section \<open>Facts about the steps\<close>

lemma CreateStream_heap:
  "\<exists>ext. heap (snd (CreateStream rnd now srv cli d m)) = heap m @ ext"
  by (auto simp add: CreateStream_def Let_def split: prod.splits option.splits)

lemma Start_heap [simp]: "heap (snd (Start ok m)) = heap m"
  by (simp add: Start_def Let_def)

lemma sides_kept_refl:
  "q < length (heap m) \<Longrightarrow> heap m' = heap m \<Longrightarrow>
   q < length (heap m')
   \<and> (sideS (heap m ! q) \<noteq> None \<longrightarrow> sideS (heap m' ! q) = sideS (heap m ! q))
   \<and> (sideC (heap m ! q) \<noteq> None \<longrightarrow> sideC (heap m' ! q) = sideC (heap m ! q))"
  by simp

lemma handleConn_sides:
  assumes q: "q < length (heap m)"
  shows "q < length (heap (snd (handleConn pb c m)))
   \<and> (sideS (heap m ! q) \<noteq> None \<longrightarrow> sideS (heap (snd (handleConn pb c m)) ! q) = sideS (heap m ! q))
   \<and> (sideC (heap m ! q) \<noteq> None \<longrightarrow> sideC (heap (snd (handleConn pb c m)) ! q) = sideC (heap m ! q))"
proof (rule handleConn_effect)
  fix m' assume "same_but_conns m m'"
  then have "heap m' = heap m" by (simp add: same_but_conns_def)
  with q show "q < length (heap m')
   \<and> (sideS (heap m ! q) \<noteq> None \<longrightarrow> sideS (heap m' ! q) = sideS (heap m ! q))
   \<and> (sideC (heap m ! q) \<noteq> None \<longrightarrow> sideC (heap m' ! q) = sideC (heap m ! q))"
    by simp
next
  fix b sid p m2 assume "same_but_conns m m2"
  then have h: "heap m2 = heap m" by (simp add: same_but_conns_def)
  from q h have q2: "q < length (heap m2)" by simp
  from installSide_sides [OF q2, of b sid p c] h q
  show "q < length (heap (snd (installSide b sid p c m2)))
   \<and> (sideS (heap m ! q) \<noteq> None \<longrightarrow>
        sideS (heap (snd (installSide b sid p c m2)) ! q) = sideS (heap m ! q))
   \<and> (sideC (heap m ! q) \<noteq> None \<longrightarrow>
        sideC (heap (snd (installSide b sid p c m2)) ! q) = sideC (heap m ! q))"
    by simp
qed

lemma serveConn_heap: "heap (serveConn pb c m) = heap (snd (handleConn pb c m))"
  by (simp add: serveConn_def split: prod.splits option.splits)

lemma step_sides:
  assumes st: "step pb ev m = Some m'" and q: "q < length (heap m)"
  shows "q < length (heap m')
   \<and> (sideS (heap m ! q) \<noteq> None \<longrightarrow> sideS (heap m' ! q) = sideS (heap m ! q))
   \<and> (sideC (heap m ! q) \<noteq> None \<longrightarrow> sideC (heap m' ! q) = sideC (heap m ! q))"
proof (cases ev)
  case (CallStart ok)
  with st have "heap m' = heap m" by auto
  with q show ?thesis by simp
next
  case (CallCreateStream rnd now srv cli d)
  with st have m': "m' = snd (CreateStream rnd now srv cli d m)" by simp
  from CreateStream_heap [of rnd now srv cli d m] obtain ext where "heap m' = heap m @ ext"
    unfolding m' by blast
  with q show ?thesis by (simp add: nth_append)
next
  case (Accept r)
  with st have "heap m' = heap m"
    by (auto simp add: acceptLoop_step_def split: if_splits option.splits)
  with q show ?thesis by simp
next
  case (Handle c)
  with st have "heap m' = heap (snd (handleConn pb c m))"
    by (auto simp add: handler_step_def Let_def serveConn_heap split: if_splits)
  with handleConn_sides [OF q, of pb c] show ?thesis by simp
next
  case (Tick t)
  with st have "heap m' = heap m"
    by (auto simp add: gcLoop_step_def gc_def split: if_splits option.splits)
  with q show ?thesis by simp
next
  case (BridgeEnd sid p)
  with st have "heap m' = heap m"
    by (auto simp add: startBridge_finish_def split: if_splits)
  with q show ?thesis by simp
next
  case CallStopBegin
  with st have "heap m' = heap m" by (auto simp add: Stop_begin_def)
  with q show ?thesis by simp
next
  case CallStopEnd
  with st have "heap m' = heap m" by (auto simp add: Stop_end_def split: if_splits)
  with q show ?thesis by simp
qed

lemma run_sides:
  "run pb evs m = Some m' \<Longrightarrow> q < length (heap m) \<Longrightarrow>
   q < length (heap m')
   \<and> (sideS (heap m ! q) \<noteq> None \<longrightarrow> sideS (heap m' ! q) = sideS (heap m ! q))
   \<and> (sideC (heap m ! q) \<noteq> None \<longrightarrow> sideC (heap m' ! q) = sideC (heap m ! q))"
proof (induction evs arbitrary: m)
  case Nil
  then show ?case by simp
next
  case (Cons ev evs)
  from Cons.prems(1) obtain m1 where s: "step pb ev m = Some m1" and r: "run pb evs m1 = Some m'"
    by (auto split: option.splits)
  from step_sides [OF s Cons.prems(2)] have
    a: "q < length (heap m1)"
       "sideS (heap m ! q) \<noteq> None \<longrightarrow> sideS (heap m1 ! q) = sideS (heap m ! q)"
       "sideC (heap m ! q) \<noteq> None \<longrightarrow> sideC (heap m1 ! q) = sideC (heap m ! q)"
    by simp_all
  from Cons.IH [OF r a(1)] a show ?case by auto
qed

text \<open>The request on connection 6 of the sample manager: authenticated, for the taken client side.\<close>

lemma sample_dup_read:
  "ReadRelayFrameRaw (conns sample_manager 6) =
     (Inr (relayFrameHeader RelayTypeHandshakeRequest (request7 peerC), request7 peerC,
           buildRelayHMAC tokenK (relayFrameHeader RelayTypeHandshakeRequest (request7 peerC))
             (request7 peerC)),
      conn_with [])"
  by (simp add: sample_conns read_conn_with sample_lengths peerC_def)

lemma sample_dup_type:
  "Type (relayFrameHeader RelayTypeHandshakeRequest (request7 peerC)) = RelayTypeHandshakeRequest"
  by (simp add: relayFrameHeader_def)

lemma sample_dup_lookup:
  "map_of (allocations sample_manager) (StreamId \<lparr>StreamId = 7, SenderPeerId = peerC\<rparr>) = Some 1"
  by (simp add: sample_lookup)

lemma sample_dup_verify:
  "VerifyRelayHMAC (relayFrameHeader RelayTypeHandshakeRequest (request7 peerC))
        (token (heap sample_manager ! 1)) (request7 peerC)
        (buildRelayHMAC tokenK (relayFrameHeader RelayTypeHandshakeRequest (request7 peerC))
             (request7 peerC)) = None"
  by (simp add: VerifyRelayHMAC_same sample_heap1)

lemma sample_dup_sender:
  "IDFromBytes sample_codecs (SenderPeerId \<lparr>StreamId = 7, SenderPeerId = peerC\<rparr>) = Some peerC"
  by (simp add: sample_codecs_def peerC_def)

lemma sample_dup_side:
  "serverPeerID (heap sample_manager ! 1) \<noteq> peerC"
  "clientPeerID (heap sample_manager ! 1) = peerC"
  "sideC (heap sample_manager ! 1) = Some 3"
  by (simp_all add: sample_heap1 peerS_def peerC_def)

lemma sample_dup_writable:
  "\<not> wfail (conns sample_manager 6)"
  "length (Marshal_HandshakeAck sample_codecs \<lparr>Ok = True, Error = []\<rparr>) \<le> 65535"
  by (simp_all add: sample_conns conn_with_def sample_codecs_def)

lemma sample_run_defined:
  "run sample_codecs [Accept (Some 6), Handle 6] sample_manager \<noteq> None"
  by (simp add: acceptLoop_step_def handler_step_def sample_manager_def Let_def)

section \<open>Facts about the map of allocations\<close>

lemma set_update_present:
  "distinct (map fst al) \<Longrightarrow> map_of al k = Some p \<Longrightarrow>
   set (AList.update k v al) = insert (k, v) (set al - {(k, p)})"
proof (induction al)
  case Nil
  then show ?case by simp
next
  case (Cons e al)
  obtain k' p' where e: "e = (k', p')" by (cases e)
  show ?case
  proof (cases "k' = k")
    case True
    with Cons.prems e have "p' = p" by simp
    moreover have "(k, p) \<notin> set al" using Cons.prems(1) e True by (force simp add: image_iff)
    ultimately show ?thesis using e True by auto
  next
    case False
    with Cons.prems e have "map_of al k = Some p" by simp
    with Cons.IH Cons.prems(1) have "set (AList.update k v al) = insert (k, v) (set al - {(k, p)})"
      by simp
    with e False show ?thesis by auto
  qed
qed

lemma same_value_same_key:
  "distinct (map snd al) \<Longrightarrow> (k1, p) \<in> set al \<Longrightarrow> (k2, p) \<in> set al \<Longrightarrow> k1 = k2"
proof -
  assume d: "distinct (map snd al)" and a: "(k1, p) \<in> set al" and b: "(k2, p) \<in> set al"
  from d have "inj_on snd (set al)" by (simp add: distinct_map)
  from inj_onD [OF this _ a b] show ?thesis by simp
qed

lemma randomUint64_full:
  "8 \<le> length rnd \<Longrightarrow> randomUint64 rnd = (Uint64 rnd, drop 8 rnd)"
  by (simp add: randomUint64_def io_ReadFull_def Uint64_def)

lemma CreateStream_ok:
  assumes "40 \<le> length rnd"
  shows "CreateStream rnd now srv cli d m =
     (Inr (Uint64 rnd, take 32 (drop 8 rnd), listenAddr m),
      m\<lparr>heap := heap m @ [\<lparr>streamID = Uint64 rnd, token = take 32 (drop 8 rnd),
                              serverPeerID = srv, clientPeerID = cli,
                              sideS = None, sideC = None, created = now, ttl = d\<rparr>],
        allocations := AList.update (Uint64 rnd) (length (heap m)) (allocations m)\<rparr>)"
  using assms by (simp add: CreateStream_def randomUint64_full io_ReadFull_def Let_def)

section \<open>Facts about the wait group\<close>



lemma CreateStream_tasks [simp]:
  "tasks (snd (CreateStream rnd now srv cli d m)) = tasks m"
  "wg (snd (CreateStream rnd now srv cli d m)) = wg m"
  by (auto simp add: CreateStream_def Let_def split: prod.splits option.splits)








section \<open>Facts about closing\<close>





section \<open>The sample run\<close>

text \<open>An authenticated request for a side that is free: the side is installed.\<close>

lemma handleConn_install:
  assumes rd: "ReadRelayFrameRaw (conns m c) = (Inr (hdr, data, hsum), nc)"
    and ty: "Type hdr = RelayTypeHandshakeRequest"
    and um: "Unmarshal_HandshakeRequest pb data = Some req"
    and lk: "map_of (allocations m) (StreamId req) = Some p"
    and vf: "VerifyRelayHMAC hdr (token (heap m ! p)) data hsum = None"
    and pid: "IDFromBytes pb (SenderPeerId req) = Some sender"
    and free: "(serverPeerID (heap m ! p) = sender \<and> sideS (heap m ! p) = None)
            \<or> (serverPeerID (heap m ! p) \<noteq> sender \<and> clientPeerID (heap m ! p) = sender
                \<and> sideC (heap m ! p) = None)"
    and wr: "\<not> wfail (conns m c)"
    and len: "length (Marshal_HandshakeAck pb \<lparr>Ok = True, Error = []\<rparr>) \<le> 65535"
  shows "handleConn pb c m =
     installSide (serverPeerID (heap m ! p) = sender) (StreamId req) p c
       (m\<lparr>conns := (conns m)(c := nc\<lparr>wbuf := wbuf (conns m c)
           @ relayFrameBuf RelayTypeHandshakeAck (token (heap m ! p))
               (Marshal_HandshakeAck pb \<lparr>Ok = True, Error = []\<rparr>)\<rparr>)\<rparr>)"
proof -
  note wa = writeAck_after_read [OF rd wr len, of "token (heap m ! p)"]
  show ?thesis
    unfolding handleConn_request [OF rd ty um]
    using lk vf pid free wa
    by (auto simp add: Let_def)
qed

lemma stop_rnd_facts:
  "40 \<le> length stop_rnd" "Uint64 stop_rnd = 7" "take 32 (drop 8 stop_rnd) = tokenK"
  by (simp_all add: stop_rnd_def Uint64_def tokenK_def)

lemma sample_unmarshal7S:
  "Unmarshal_HandshakeRequest sample_codecs (request7 peerS) = Some \<lparr>StreamId = 7, SenderPeerId = peerS\<rparr>"
  by (simp add: sample_codecs_def Uint64_request7) (simp add: request7_def)

lemma sample_misc:
  "IDFromBytes sample_codecs peerS = Some peerS" "IDFromBytes sample_codecs peerC = Some peerC"
  "peerS \<noteq> peerC"
  "length (Marshal_HandshakeAck sample_codecs \<lparr>Ok = True, Error = []\<rparr>) \<le> 65535"
  "length (request7 peerS) \<le> 65535" "length (request7 peerC) \<le> 65535"
  by (simp_all add: sample_codecs_def peerS_def peerC_def request7_def)

text \<open>The states of the sample run, one event after the other.\<close>

lemma stop_run_2:
  "run sample_codecs [CallStart True, CallCreateStream stop_rnd 0 peerS peerC 60000000000, Accept (Some 1)]
     (New stop_net '':24002'') =
   Some \<lparr>listenAddr = '':24002'', allocations = [(7, 0)],
         heap = [\<lparr>streamID = 7, token = tokenK, serverPeerID = peerS, clientPeerID = peerC,
                  sideS = None, sideC = None, created = 0, ttl = 60000000000\<rparr>],
         conns = stop_net, wg = 3, lis = Some True, cancel = True, ctx_done = False,
         tasks = [AcceptLoop, GcLoop, Handler 1], accepted = [1]\<rparr>"
  by (simp add: New_def Start_def Let_def CreateStream_ok stop_rnd_facts acceptLoop_step_def)


lemma stop_run_handle1:
  "step sample_codecs (Handle 1)
     \<lparr>listenAddr = '':24002'', allocations = [(7, 0)],
         heap = [\<lparr>streamID = 7, token = tokenK, serverPeerID = peerS, clientPeerID = peerC,
                  sideS = None, sideC = None, created = 0, ttl = 60000000000\<rparr>],
         conns = stop_net,
         wg = 3, lis = Some True, cancel = True, ctx_done = False,
         tasks = [AcceptLoop, GcLoop, Handler 1], accepted = [1]\<rparr> =
   Some \<lparr>listenAddr = '':24002'', allocations = [(7, 0)],
         heap = [\<lparr>streamID = 7, token = tokenK, serverPeerID = peerS, clientPeerID = peerC,
                  sideS = Some 1, sideC = None, created = 0, ttl = 60000000000\<rparr>],
         conns = stop_net(1 := (conn_with [])\<lparr>wbuf := relayFrameBuf RelayTypeHandshakeAck tokenK
                     (Marshal_HandshakeAck sample_codecs \<lparr>Ok = True, Error = []\<rparr>)\<rparr>),
         wg = 2, lis = Some True, cancel = True, ctx_done = False,
         tasks = [AcceptLoop, GcLoop], accepted = [1]\<rparr>"
proof -
  let ?m = "\<lparr>listenAddr = '':24002'', allocations = [(7, 0)],
         heap = [\<lparr>streamID = 7, token = tokenK, serverPeerID = peerS, clientPeerID = peerC,
                  sideS = None, sideC = None, created = 0, ttl = 60000000000\<rparr>],
         conns = stop_net,
         wg = 3, lis = Some True, cancel = True, ctx_done = False,
         tasks = [AcceptLoop, GcLoop, Handler 1], accepted = [1]\<rparr>"
  let ?hdr = "relayFrameHeader RelayTypeHandshakeRequest (request7 peerS)"
  have rd: "ReadRelayFrameRaw (conns ?m 1) =
      (Inr (?hdr, request7 peerS, buildRelayHMAC tokenK ?hdr (request7 peerS)), conn_with [])"
    by (simp add: stop_net_def read_conn_with sample_misc)
  have ty: "Type ?hdr = RelayTypeHandshakeRequest" by (simp add: relayFrameHeader_def)
  have um: "Unmarshal_HandshakeRequest sample_codecs (request7 peerS)
      = Some \<lparr>StreamId = 7, SenderPeerId = peerS\<rparr>"
    by (rule sample_unmarshal7S)
  have lk: "map_of (allocations ?m) (StreamId \<lparr>StreamId = 7, SenderPeerId = peerS\<rparr>) = Some 0"
    by simp
  have vf: "VerifyRelayHMAC ?hdr (token (heap ?m ! 0)) (request7 peerS)
      (buildRelayHMAC tokenK ?hdr (request7 peerS)) = None"
    by (simp add: VerifyRelayHMAC_same)
  have pid: "IDFromBytes sample_codecs (SenderPeerId \<lparr>StreamId = 7, SenderPeerId = peerS\<rparr>) = Some peerS"
    by (simp add: sample_misc)
  have free: "(serverPeerID (heap ?m ! 0) = peerS \<and> sideS (heap ?m ! 0) = None)
            \<or> (serverPeerID (heap ?m ! 0) \<noteq> peerS \<and> clientPeerID (heap ?m ! 0) = peerS
                \<and> sideC (heap ?m ! 0) = None)"
    using sample_misc(3) by simp
  have wr: "\<not> wfail (conns ?m 1)" by (simp add: stop_net_def conn_with_def)
  note len = sample_misc(4)
  have w0: "wbuf (conns ?m 1) = []" by (simp add: stop_net_def conn_with_def)
  have isS: "(serverPeerID (heap ?m ! 0) = peerS) = True"
    using sample_misc(3) by simp
  have tk: "token (heap ?m ! 0) = tokenK" by simp
  note hc = handleConn_install [OF rd ty um lk vf pid free wr len]
  show ?thesis
    unfolding step.simps handler_step_def serveConn_def hc
    using sample_misc(3) by (simp add: installSide_def Let_def stop_net_def conn_with_def)
qed

lemma stop_run_accept2:
  "step sample_codecs (Accept (Some 2))
     \<lparr>listenAddr = '':24002'', allocations = [(7, 0)],
         heap = [\<lparr>streamID = 7, token = tokenK, serverPeerID = peerS, clientPeerID = peerC,
                  sideS = Some 1, sideC = None, created = 0, ttl = 60000000000\<rparr>],
         conns = stop_net(1 := (conn_with [])\<lparr>wbuf := relayFrameBuf RelayTypeHandshakeAck tokenK
                     (Marshal_HandshakeAck sample_codecs \<lparr>Ok = True, Error = []\<rparr>)\<rparr>),
         wg = 2, lis = Some True, cancel = True, ctx_done = False,
         tasks = [AcceptLoop, GcLoop], accepted = [1]\<rparr> =
   Some \<lparr>listenAddr = '':24002'', allocations = [(7, 0)],
         heap = [\<lparr>streamID = 7, token = tokenK, serverPeerID = peerS, clientPeerID = peerC,
                  sideS = Some 1, sideC = None, created = 0, ttl = 60000000000\<rparr>],
         conns = stop_net(1 := (conn_with [])\<lparr>wbuf := relayFrameBuf RelayTypeHandshakeAck tokenK
                     (Marshal_HandshakeAck sample_codecs \<lparr>Ok = True, Error = []\<rparr>)\<rparr>),
         wg = 3, lis = Some True, cancel = True, ctx_done = False,
         tasks = [AcceptLoop, GcLoop, Handler 2], accepted = [2, 1]\<rparr>"
  by (simp add: acceptLoop_step_def)

lemma stop_run_handle2:
  "step sample_codecs (Handle 2)
     \<lparr>listenAddr = '':24002'', allocations = [(7, 0)],
         heap = [\<lparr>streamID = 7, token = tokenK, serverPeerID = peerS, clientPeerID = peerC,
                  sideS = Some 1, sideC = None, created = 0, ttl = 60000000000\<rparr>],
         conns = stop_net(1 := (conn_with [])\<lparr>wbuf := relayFrameBuf RelayTypeHandshakeAck tokenK
                     (Marshal_HandshakeAck sample_codecs \<lparr>Ok = True, Error = []\<rparr>)\<rparr>),
         wg = 3, lis = Some True, cancel = True, ctx_done = False,
         tasks = [AcceptLoop, GcLoop, Handler 2], accepted = [2, 1]\<rparr> =
   Some \<lparr>listenAddr = '':24002'', allocations = [(7, 0)],
         heap = [\<lparr>streamID = 7, token = tokenK, serverPeerID = peerS, clientPeerID = peerC,
                  sideS = Some 1, sideC = Some 2, created = 0, ttl = 60000000000\<rparr>],
         conns = stop_net(1 := (conn_with [])\<lparr>wbuf := relayFrameBuf RelayTypeHandshakeAck tokenK
                     (Marshal_HandshakeAck sample_codecs \<lparr>Ok = True, Error = []\<rparr>)\<rparr>,
                  2 := (conn_with [])\<lparr>wbuf := relayFrameBuf RelayTypeHandshakeAck tokenK
                     (Marshal_HandshakeAck sample_codecs \<lparr>Ok = True, Error = []\<rparr>)\<rparr>),
         wg = 2, lis = Some True, cancel = True, ctx_done = False,
         tasks = [AcceptLoop, GcLoop, Bridge 7 0], accepted = [2, 1]\<rparr>"
proof -
  let ?m = "\<lparr>listenAddr = '':24002'', allocations = [(7, 0)],
         heap = [\<lparr>streamID = 7, token = tokenK, serverPeerID = peerS, clientPeerID = peerC,
                  sideS = Some 1, sideC = None, created = 0, ttl = 60000000000\<rparr>],
         conns = stop_net(1 := (conn_with [])\<lparr>wbuf := relayFrameBuf RelayTypeHandshakeAck tokenK
                     (Marshal_HandshakeAck sample_codecs \<lparr>Ok = True, Error = []\<rparr>)\<rparr>),
         wg = 3, lis = Some True, cancel = True, ctx_done = False,
         tasks = [AcceptLoop, GcLoop, Handler 2], accepted = [2, 1]\<rparr>"
  let ?hdr = "relayFrameHeader RelayTypeHandshakeRequest (request7 peerC)"
  have rd: "ReadRelayFrameRaw (conns ?m 2) =
      (Inr (?hdr, request7 peerC, buildRelayHMAC tokenK ?hdr (request7 peerC)), conn_with [])"
    by (simp add: stop_net_def read_conn_with sample_misc)
  have ty: "Type ?hdr = RelayTypeHandshakeRequest" by (simp add: relayFrameHeader_def)
  have um: "Unmarshal_HandshakeRequest sample_codecs (request7 peerC)
      = Some \<lparr>StreamId = 7, SenderPeerId = peerC\<rparr>"
    by (rule sample_unmarshal7)
  have lk: "map_of (allocations ?m) (StreamId \<lparr>StreamId = 7, SenderPeerId = peerC\<rparr>) = Some 0"
    by simp
  have vf: "VerifyRelayHMAC ?hdr (token (heap ?m ! 0)) (request7 peerC)
      (buildRelayHMAC tokenK ?hdr (request7 peerC)) = None"
    by (simp add: VerifyRelayHMAC_same)
  have pid: "IDFromBytes sample_codecs (SenderPeerId \<lparr>StreamId = 7, SenderPeerId = peerC\<rparr>) = Some peerC"
    by (simp add: sample_misc)
  have free: "(serverPeerID (heap ?m ! 0) = peerC \<and> sideS (heap ?m ! 0) = None)
            \<or> (serverPeerID (heap ?m ! 0) \<noteq> peerC \<and> clientPeerID (heap ?m ! 0) = peerC
                \<and> sideC (heap ?m ! 0) = None)"
    using sample_misc(3) by simp
  have wr: "\<not> wfail (conns ?m 2)" by (simp add: stop_net_def conn_with_def)
  note len = sample_misc(4)
  have w0: "wbuf (conns ?m 2) = []" by (simp add: stop_net_def conn_with_def)
  have isS: "(serverPeerID (heap ?m ! 0) = peerC) = False"
    using sample_misc(3) by simp
  have tk: "token (heap ?m ! 0) = tokenK" by simp
  note hc = handleConn_install [OF rd ty um lk vf pid free wr len]
  show ?thesis
    unfolding step.simps handler_step_def serveConn_def hc
    using sample_misc(3) by (simp add: installSide_def Let_def stop_net_def conn_with_def)
qed

lemma stop_run_loops_end:
  "run sample_codecs [CallStopBegin, Accept None, Tick None]
     \<lparr>listenAddr = '':24002'', allocations = [(7, 0)],
         heap = [\<lparr>streamID = 7, token = tokenK, serverPeerID = peerS, clientPeerID = peerC,
                  sideS = Some 1, sideC = Some 2, created = 0, ttl = 60000000000\<rparr>],
         conns = stop_net(1 := (conn_with [])\<lparr>wbuf := relayFrameBuf RelayTypeHandshakeAck tokenK
                     (Marshal_HandshakeAck sample_codecs \<lparr>Ok = True, Error = []\<rparr>)\<rparr>,
                  2 := (conn_with [])\<lparr>wbuf := relayFrameBuf RelayTypeHandshakeAck tokenK
                     (Marshal_HandshakeAck sample_codecs \<lparr>Ok = True, Error = []\<rparr>)\<rparr>),
         wg = 2, lis = Some True, cancel = True, ctx_done = False,
         tasks = [AcceptLoop, GcLoop, Bridge 7 0], accepted = [2, 1]\<rparr> =
   Some \<lparr>listenAddr = '':24002'', allocations = [(7, 0)],
         heap = [\<lparr>streamID = 7, token = tokenK, serverPeerID = peerS, clientPeerID = peerC,
                  sideS = Some 1, sideC = Some 2, created = 0, ttl = 60000000000\<rparr>],
         conns = stop_net(1 := (conn_with [])\<lparr>wbuf := relayFrameBuf RelayTypeHandshakeAck tokenK
                     (Marshal_HandshakeAck sample_codecs \<lparr>Ok = True, Error = []\<rparr>)\<rparr>,
                  2 := (conn_with [])\<lparr>wbuf := relayFrameBuf RelayTypeHandshakeAck tokenK
                     (Marshal_HandshakeAck sample_codecs \<lparr>Ok = True, Error = []\<rparr>)\<rparr>),
         wg = 0, lis = Some False, cancel = True, ctx_done = True,
         tasks = [Bridge 7 0], accepted = [2, 1]\<rparr>"
  by (simp add: Stop_begin_def acceptLoop_step_def gcLoop_step_def)

lemma stop_run_append:
  "run pb (evs1 @ evs2) m = (case run pb evs1 m of None \<Rightarrow> None | Some m1 \<Rightarrow> run pb evs2 m1)"
  by (induction evs1 arbitrary: m) (simp_all split: option.splits)

text \<open>The sample run up to the moment at which the wait of \<open>Stop\<close> is over.\<close>

lemma stop_run_before_end:
  "run sample_codecs (butlast stop_run) (New stop_net '':24002'') =
   Some \<lparr>listenAddr = '':24002'', allocations = [(7, 0)],
         heap = [\<lparr>streamID = 7, token = tokenK, serverPeerID = peerS, clientPeerID = peerC,
                  sideS = Some 1, sideC = Some 2, created = 0, ttl = 60000000000\<rparr>],
         conns = stop_net(1 := (conn_with [])\<lparr>wbuf := relayFrameBuf RelayTypeHandshakeAck tokenK
                     (Marshal_HandshakeAck sample_codecs \<lparr>Ok = True, Error = []\<rparr>)\<rparr>,
                  2 := (conn_with [])\<lparr>wbuf := relayFrameBuf RelayTypeHandshakeAck tokenK
                     (Marshal_HandshakeAck sample_codecs \<lparr>Ok = True, Error = []\<rparr>)\<rparr>),
         wg = 0, lis = Some False, cancel = True, ctx_done = True,
         tasks = [Bridge 7 0], accepted = [2, 1]\<rparr>"
proof -
  have b: "butlast stop_run =
      [CallStart True, CallCreateStream stop_rnd 0 peerS peerC 60000000000, Accept (Some 1)]
      @ [Handle 1] @ [Accept (Some 2)] @ [Handle 2] @ [CallStopBegin, Accept None, Tick None]"
    by (simp add: stop_run_def)
  show ?thesis
    unfolding b stop_run_append stop_run_2
    using stop_run_handle1 stop_run_accept2 stop_run_handle2 stop_run_loops_end
    by simp
qed


section \<open>What every run keeps\<close>

lemma handled_keep: "same_but_conns m m' \<Longrightarrow> handled c m m'"
  by (auto simp add: handled_def same_but_conns_def held_def)

lemma installSide_held:
  "held (snd (installSide b sid p c m)) q x \<Longrightarrow> held m q x \<or> (q = p \<and> x = c)"
  by (cases "q = p")
     (auto simp add: installSide_def Let_def held_def holds_conn_def split: if_splits)

lemma installSide_tasks:
  "tasks (snd (installSide b sid p c m)) = tasks m
   \<or> tasks (snd (installSide b sid p c m)) = tasks m @ [Bridge sid p]"
  by (auto simp add: installSide_def Let_def)

lemma installSide_accepted [simp]: "accepted (snd (installSide b sid p c m)) = accepted m"
  by (simp add: installSide_def Let_def)

lemma handled_install:
  assumes "same_but_conns m m2"
  shows "handled c m (snd (installSide b sid p c m2))"
proof -
  from assms have e: "heap m2 = heap m" "tasks m2 = tasks m" "allocations m2 = allocations m"
    "accepted m2 = accepted m"
    by (simp_all add: same_but_conns_def)
  have h: "\<forall>q x. held (snd (installSide b sid p c m2)) q x \<longrightarrow> held m q x \<or> (q = p \<and> x = c)"
  proof (intro allI impI)
    fix q x assume "held (snd (installSide b sid p c m2)) q x"
    from installSide_held [OF this] e(1) show "held m q x \<or> (q = p \<and> x = c)"
      by (simp add: held_def)
  qed
  from installSide_tasks [of b sid p c m2] e h show ?thesis
    unfolding handled_def by auto
qed

lemma handleConn_handled: "handled c m (snd (handleConn pb c m))"
  by (rule handleConn_effect) (auto intro: handled_keep handled_install)

lemma held_heap: "heap m' = heap m \<Longrightarrow> held m' q x = held m q x"
  by (simp add: held_def)

lemma handled_cong:
  assumes h: "handled c m m1" and s: "same_but_conns m1 m2"
  shows "handled c m m2"
proof -
  from s have e: "heap m2 = heap m1" "tasks m2 = tasks m1" "allocations m2 = allocations m1"
    "accepted m2 = accepted m1"
    by (simp_all add: same_but_conns_def)
  have hh: "held m2 q x = held m1 q x" for q x using e(1) by (rule held_heap)
  from h show ?thesis unfolding handled_def hh e by simp
qed

lemma serveConn_handled: "handled c m (serveConn pb c m)"
proof -
  have "same_but_conns (snd (handleConn pb c m)) (serveConn pb c m)"
    by (simp add: serveConn_def same_but_conns_def split: prod.splits option.splits)
  from handled_cong [OF handleConn_handled this] show ?thesis .
qed








lemma CreateStream_effect:
  "snd (CreateStream rnd now srv cli d m) = m
   \<or> (\<exists>sid tok. snd (CreateStream rnd now srv cli d m) =
        m\<lparr>heap := heap m @ [\<lparr>streamID = sid, token = tok, serverPeerID = srv,
                  clientPeerID = cli, sideS = None, sideC = None, created = now, ttl = d\<rparr>],
          allocations := AList.update sid (length (heap m)) (allocations m)\<rparr>)"
  by (auto simp add: CreateStream_def Let_def split: prod.splits option.splits)







text \<open>
  Every step keeps the map of allocations well formed: \<open>CreateStream\<close> points its entry
  to a fresh allocation, the handlers leave the map alone, and the collector, the bridges
  and \<open>Stop\<close> only delete entries.
\<close>

lemma snd_update_subset: "snd ` set (AList.update k v al) \<subseteq> insert v (snd ` set al)"
  by (induction al) auto

lemma distinct_snd_update:
  "distinct (map snd al) \<Longrightarrow> v \<notin> snd ` set al \<Longrightarrow> distinct (map snd (AList.update k v al))"
proof (induction al)
  case Nil
  then show ?case by simp
next
  case (Cons e al)
  obtain k' v' where e: "e = (k', v')" by (cases e)
  from Cons.prems have d: "distinct (map snd al)" and n: "v \<notin> snd ` set al"
    and v': "v' \<notin> snd ` set al" and ne: "v \<noteq> v'"
    by (auto simp add: e)
  from snd_update_subset [of k v al] v' ne
  have f: "v' \<notin> snd ` set (AList.update k v al)" by blast
  show ?case
  proof (cases "k' = k")
    case True
    with d n show ?thesis by (simp add: e)
  next
    case False
    with Cons.IH [OF d n] f show ?thesis by (simp add: e)
  qed
qed

lemma distinct_snd_delete: "distinct (map snd al) \<Longrightarrow> distinct (map snd (AList.delete k al))"
  by (simp add: AList.delete_eq distinct_map_filter)

lemma set_delete_subset: "set (AList.delete k al) \<subseteq> set al"
  by (auto simp add: AList.delete_eq)

lemma table_ok_delete:
  assumes "table_ok m" and "heap m' = heap m" and "allocations m' = AList.delete k (allocations m)"
  shows "table_ok m'"
  using assms set_delete_subset [of k "allocations m"]
  by (auto simp add: table_ok_def distinct_delete distinct_snd_delete list_all_iff)

lemma table_ok_same:
  assumes "table_ok m" and "length (heap m') = length (heap m)" and "allocations m' = allocations m"
  shows "table_ok m'"
  using assms by (simp add: table_ok_def)

lemma table_ok_gc_entry: "table_ok m \<Longrightarrow> table_ok (gc_entry now e m)"
proof -
  assume ok: "table_ok m"
  obtain sid p where e: "e = (sid, p)" by (cases e)
  have "gc_entry now e m = m
    \<or> (heap (gc_entry now e m) = heap m
       \<and> allocations (gc_entry now e m) = AList.delete sid (allocations m))"
    by (simp add: gc_entry_def e Let_def)
  with ok show ?thesis by (auto intro: table_ok_delete)
qed

lemma table_ok_gc_loop: "table_ok m \<Longrightarrow> table_ok (gc_loop now es m)"
  by (induction es arbitrary: m) (simp_all add: table_ok_gc_entry)

lemma table_ok_new_allocation:
  assumes ok: "table_ok m"
  shows "table_ok (m\<lparr>heap := heap m @ [a],
                     allocations := AList.update sid (length (heap m)) (allocations m)\<rparr>)"
proof -
  from ok have d1: "distinct (map fst (allocations m))" and d2: "distinct (map snd (allocations m))"
    and lt: "\<forall>e \<in> set (allocations m). snd e < length (heap m)"
    by (simp_all add: table_ok_def list_all_iff)
  from lt have fresh: "length (heap m) \<notin> snd ` set (allocations m)" by auto
  have "snd e < Suc (length (heap m))"
    if e: "e \<in> set (AList.update sid (length (heap m)) (allocations m))" for e
  proof -
    from e have "snd e \<in> snd ` set (AList.update sid (length (heap m)) (allocations m))"
      by (rule imageI)
    with snd_update_subset [of sid "length (heap m)" "allocations m"]
    have "snd e = length (heap m) \<or> snd e \<in> snd ` set (allocations m)" by blast
    with lt show ?thesis by auto
  qed
  with d1 distinct_snd_update [OF d2 fresh] show ?thesis
    by (simp add: table_ok_def list_all_iff distinct_update)
qed

lemma step_table_ok:
  assumes ok: "table_ok m" and st: "step pb ev m = Some m'"
  shows "table_ok m'"
proof (cases ev)
  case (CallStart b)
  with st have m': "m' = snd (Start b m)" by simp
  show ?thesis by (rule table_ok_same [OF ok]) (simp_all add: m' Start_def Let_def)
next
  case (CallCreateStream rnd now srv cli d)
  with st have m': "m' = snd (CreateStream rnd now srv cli d m)" by simp
  from CreateStream_effect [of rnd now srv cli d m] show ?thesis
  proof (elim disjE exE)
    assume "snd (CreateStream rnd now srv cli d m) = m"
    with ok m' show ?thesis by simp
  next
    fix sid tok
    assume e: "snd (CreateStream rnd now srv cli d m) =
        m\<lparr>heap := heap m @ [\<lparr>streamID = sid, token = tok, serverPeerID = srv,
                  clientPeerID = cli, sideS = None, sideC = None, created = now, ttl = d\<rparr>],
          allocations := AList.update sid (length (heap m)) (allocations m)\<rparr>"
    show ?thesis unfolding m' e by (rule table_ok_new_allocation [OF ok])
  qed
next
  case (Accept r)
  with st have "length (heap m') = length (heap m) \<and> allocations m' = allocations m"
    by (auto simp add: acceptLoop_step_def split: if_splits option.splits)
  with ok show ?thesis by (simp add: table_ok_same)
next
  case (Handle c)
  with st have m': "m' = (serveConn pb c m)\<lparr>wg := wg (serveConn pb c m) - 1,
                 tasks := remove1 (Handler c) (tasks (serveConn pb c m))\<rparr>"
    by (auto simp add: handler_step_def Let_def split: if_splits)
  from serveConn_handled [of c m pb] show ?thesis
    by (intro table_ok_same [OF ok]) (simp_all add: m' handled_def)
next
  case (Tick t)
  with st have "m' = m \<or> (\<exists>now. m' = gc now m)
      \<or> m' = m\<lparr>wg := wg m - 1, tasks := remove1 GcLoop (tasks m)\<rparr>"
    by (auto simp add: gcLoop_step_def split: if_splits option.splits)
  with ok show ?thesis by (auto simp add: gc_def table_ok_gc_loop intro: table_ok_same)
next
  case (BridgeEnd sid p)
  with st have m': "m' = m\<lparr>conns := allocation_Close (heap m ! p) (conns m),
                   allocations := AList.delete sid (allocations m),
                   tasks := remove1 (Bridge sid p) (tasks m)\<rparr>"
    by (auto simp add: startBridge_finish_def split: if_splits)
  show ?thesis by (rule table_ok_delete [OF ok, of _ sid]) (simp_all add: m')
next
  case CallStopBegin
  with st have m': "m' = Stop_begin m" by simp
  show ?thesis by (rule table_ok_same [OF ok]) (simp_all add: m' Stop_begin_def)
next
  case CallStopEnd
  with st have "heap m' = heap m \<and> allocations m' = []"
    by (auto simp add: Stop_end_def split: if_splits)
  then show ?thesis by (simp add: table_ok_def)
qed

lemma run_table_ok: "table_ok m \<Longrightarrow> run pb evs m = Some m' \<Longrightarrow> table_ok m'"
proof (induction evs arbitrary: m)
  case Nil
  then show ?case by simp
next
  case (Cons ev evs)
  from Cons.prems(2) obtain m1 where s: "step pb ev m = Some m1" and r: "run pb evs m1 = Some m'"
    by (auto split: option.splits)
  from Cons.IH [OF step_table_ok [OF Cons.prems(1) s] r] show ?case .
qed

lemma New_table_ok: "table_ok (New net addr)"
  by (simp add: table_ok_def New_def)


text \<open>The two sample states are states of runs.\<close>

lemma run_waiting_manager:
  "run sample_codecs (butlast stop_run) (New stop_net '':24002'') = Some waiting_manager"
  unfolding waiting_manager_def by (rule stop_run_before_end)


lemma waiting_manager_facts:
  "map_of (allocations waiting_manager) 7 = Some 0"
  "sideS (heap waiting_manager ! 0) = Some 1" "sideC (heap waiting_manager ! 0) = Some 2"
  "created (heap waiting_manager ! 0) = 0" "ttl (heap waiting_manager ! 0) = 60000000000"
  by (simp_all add: waiting_manager_def)


section \<open>Claims about the handler\<close>

text \<open>
  Claim C4. A handshake request whose stream id has no allocation: the handler
  returns \<open>ErrAllocationNotFound\<close>; the map of allocations, the allocations themselves,
  the goroutines and every other connection stay as they were; on a connection that
  takes the write, exactly one frame is written: the acknowledgement with \<open>ok = false\<close>
  and the error \<open>no such stream\<close>, signed with 32 zero bytes; and the goroutine of the
  connection closes it.
\<close>

theorem unknown_stream_rejected:
  assumes rd: "ReadRelayFrameRaw (conns m c) = (Inr (hdr, data, hsum), nc)"
    and ty: "Type hdr = RelayTypeHandshakeRequest"
    and um: "Unmarshal_HandshakeRequest pb data = Some req"
    and none: "map_of (allocations m) (StreamId req) = None"
  shows "fst (handleConn pb c m) = Some ErrAllocationNotFound
       \<and> allocations (snd (handleConn pb c m)) = allocations m
       \<and> heap (snd (handleConn pb c m)) = heap m
       \<and> tasks (snd (handleConn pb c m)) = tasks m
       \<and> (\<forall>c'. c' \<noteq> c \<longrightarrow> conns (snd (handleConn pb c m)) c' = conns m c')
       \<and> (\<not> wfail (conns m c)
            \<and> length (Marshal_HandshakeAck pb \<lparr>Ok = False, Error = ''no such stream''\<rparr>) \<le> 65535 \<longrightarrow>
          wbuf (conns (snd (handleConn pb c m)) c) =
            wbuf (conns m c) @ relayFrameBuf RelayTypeHandshakeAck (replicate 32 0)
              (Marshal_HandshakeAck pb \<lparr>Ok = False, Error = ''no such stream''\<rparr>))
       \<and> closed (conns (serveConn pb c m) c)
       \<and> allocations (serveConn pb c m) = allocations m
       \<and> heap (serveConn pb c m) = heap m"
proof -
  let ?ack = "\<lparr>Ok = False, Error = ''no such stream''\<rparr>"
  let ?m1 = "m\<lparr>conns := (conns m)(c := nc)\<rparr>"
  let ?m2 = "snd (writeAck pb c (replicate 32 0) ?ack ?m1)"
  note hc = handleConn_unknown [OF rd ty um none]
  have sv: "serveConn pb c m = ?m2\<lparr>conns := (conns ?m2)(c := conn_Close (conns ?m2 c))\<rparr>"
    using serveConn_error [OF hc] .
  have other: "\<forall>c'. c' \<noteq> c \<longrightarrow> conns ?m2 c' = conns m c'"
    by (simp add: writeAck_other)
  have wrt: "wbuf (conns ?m2 c) =
            wbuf (conns m c) @ relayFrameBuf RelayTypeHandshakeAck (replicate 32 0)
              (Marshal_HandshakeAck pb ?ack)"
    if "\<not> wfail (conns m c) \<and> length (Marshal_HandshakeAck pb ?ack) \<le> 65535"
    using writeAck_after_read [OF rd, of pb ?ack "replicate 32 0"] that by simp
  show ?thesis
    unfolding sv unfolding hc using other wrt by (simp add: conn_Close_def)
qed

theorem unknown_stream_rejected_witness:
  "ReadRelayFrameRaw (conns sample_manager 8) =
     (Inr (relayFrameHeader RelayTypeHandshakeRequest (request999 peerC), request999 peerC,
           buildRelayHMAC tokenK (relayFrameHeader RelayTypeHandshakeRequest (request999 peerC))
             (request999 peerC)),
      conn_with [])
   \<and> Type (relayFrameHeader RelayTypeHandshakeRequest (request999 peerC)) = RelayTypeHandshakeRequest
   \<and> Unmarshal_HandshakeRequest sample_codecs (request999 peerC)
       = Some \<lparr>StreamId = 999, SenderPeerId = peerC\<rparr>
   \<and> map_of (allocations sample_manager) (StreamId \<lparr>StreamId = 999, SenderPeerId = peerC\<rparr>) = None
   \<and> fst (handleConn sample_codecs 8 sample_manager) = Some ErrAllocationNotFound
   \<and> allocations (snd (handleConn sample_codecs 8 sample_manager)) = [(12, 0), (7, 1)]
   \<and> heap (snd (handleConn sample_codecs 8 sample_manager)) = heap sample_manager
   \<and> wbuf (conns (snd (handleConn sample_codecs 8 sample_manager)) 8) =
        relayFrameBuf RelayTypeHandshakeAck (replicate 32 0)
          (Marshal_HandshakeAck sample_codecs \<lparr>Ok = False, Error = ''no such stream''\<rparr>)
   \<and> closed (conns (serveConn sample_codecs 8 sample_manager) 8)
   \<and> allocations (serveConn sample_codecs 8 sample_manager) = [(12, 0), (7, 1)]"
proof -
  have h1: "ReadRelayFrameRaw (conns sample_manager 8) =
     (Inr (relayFrameHeader RelayTypeHandshakeRequest (request999 peerC), request999 peerC,
           buildRelayHMAC tokenK (relayFrameHeader RelayTypeHandshakeRequest (request999 peerC))
             (request999 peerC)),
      conn_with [])"
    by (simp add: sample_conns read_conn_with sample_lengths peerC_def)
  have h2: "Type (relayFrameHeader RelayTypeHandshakeRequest (request999 peerC)) = RelayTypeHandshakeRequest"
    by (simp add: relayFrameHeader_def)
  note h3 = sample_unmarshal999
  have h4: "map_of (allocations sample_manager) (StreamId \<lparr>StreamId = 999, SenderPeerId = peerC\<rparr>) = None"
    by (simp add: sample_lookup)
  have w: "\<not> wfail (conns sample_manager 8)
     \<and> length (Marshal_HandshakeAck sample_codecs \<lparr>Ok = False, Error = ''no such stream''\<rparr>) \<le> 65535"
    by (simp add: sample_conns conn_with_def sample_codecs_def)
  have b: "wbuf (conns sample_manager 8) = []" by (simp add: sample_conns conn_with_def)
  have a: "allocations sample_manager = [(12, 0), (7, 1)]" by (simp add: sample_manager_def)
  from unknown_stream_rejected [OF h1 h2 h3 h4] w b a h1 h2 h3 h4
  show ?thesis by simp
qed

text \<open>
  Claim C5. A handshake request for a live allocation whose HMAC does not verify under
  the token of the allocation: the handler returns \<open>ErrHMACMismatch\<close>; the map of
  allocations and the allocations, so both side slots, stay as they were, and no bridge
  is started; on a connection that takes the write, exactly one frame is written: the
  acknowledgement with \<open>ok = false\<close> and the error \<open>hmac mismatch\<close>, signed with the
  token of the allocation; and the goroutine of the connection closes it.
\<close>

theorem hmac_mismatch_rejected:
  assumes rd: "ReadRelayFrameRaw (conns m c) = (Inr (hdr, data, hsum), nc)"
    and ty: "Type hdr = RelayTypeHandshakeRequest"
    and um: "Unmarshal_HandshakeRequest pb data = Some req"
    and lk: "map_of (allocations m) (StreamId req) = Some p"
    and bad: "VerifyRelayHMAC hdr (token (heap m ! p)) data hsum \<noteq> None"
  shows "fst (handleConn pb c m) = Some ErrHMACMismatch
       \<and> allocations (snd (handleConn pb c m)) = allocations m
       \<and> heap (snd (handleConn pb c m)) = heap m
       \<and> tasks (snd (handleConn pb c m)) = tasks m
       \<and> (\<forall>c'. c' \<noteq> c \<longrightarrow> conns (snd (handleConn pb c m)) c' = conns m c')
       \<and> (\<not> wfail (conns m c)
            \<and> length (Marshal_HandshakeAck pb \<lparr>Ok = False, Error = ''hmac mismatch''\<rparr>) \<le> 65535 \<longrightarrow>
          wbuf (conns (snd (handleConn pb c m)) c) =
            wbuf (conns m c) @ relayFrameBuf RelayTypeHandshakeAck (token (heap m ! p))
              (Marshal_HandshakeAck pb \<lparr>Ok = False, Error = ''hmac mismatch''\<rparr>))
       \<and> closed (conns (serveConn pb c m) c)
       \<and> allocations (serveConn pb c m) = allocations m
       \<and> heap (serveConn pb c m) = heap m"
proof -
  let ?ack = "\<lparr>Ok = False, Error = ''hmac mismatch''\<rparr>"
  let ?m1 = "m\<lparr>conns := (conns m)(c := nc)\<rparr>"
  let ?m2 = "snd (writeAck pb c (token (heap m ! p)) ?ack ?m1)"
  note hc = handleConn_mismatch [OF rd ty um lk bad]
  have sv: "serveConn pb c m = ?m2\<lparr>conns := (conns ?m2)(c := conn_Close (conns ?m2 c))\<rparr>"
    using serveConn_error [OF hc] .
  have other: "\<forall>c'. c' \<noteq> c \<longrightarrow> conns ?m2 c' = conns m c'"
    by (simp add: writeAck_other)
  have wrt: "wbuf (conns ?m2 c) =
            wbuf (conns m c) @ relayFrameBuf RelayTypeHandshakeAck (token (heap m ! p))
              (Marshal_HandshakeAck pb ?ack)"
    if "\<not> wfail (conns m c) \<and> length (Marshal_HandshakeAck pb ?ack) \<le> 65535"
    using writeAck_after_read [OF rd, of pb ?ack "token (heap m ! p)"] that by simp
  show ?thesis
    unfolding sv unfolding hc using other wrt by (simp add: conn_Close_def)
qed

theorem hmac_mismatch_rejected_witness:
  "ReadRelayFrameRaw (conns sample_manager 5) =
     (Inr (relayFrameHeader RelayTypeHandshakeRequest (request7 peerC), request7 peerC,
           buildRelayHMAC tokenK2 (relayFrameHeader RelayTypeHandshakeRequest (request7 peerC))
             (request7 peerC)),
      conn_with [])
   \<and> Type (relayFrameHeader RelayTypeHandshakeRequest (request7 peerC)) = RelayTypeHandshakeRequest
   \<and> Unmarshal_HandshakeRequest sample_codecs (request7 peerC)
       = Some \<lparr>StreamId = 7, SenderPeerId = peerC\<rparr>
   \<and> map_of (allocations sample_manager) (StreamId \<lparr>StreamId = 7, SenderPeerId = peerC\<rparr>) = Some 1
   \<and> VerifyRelayHMAC (relayFrameHeader RelayTypeHandshakeRequest (request7 peerC))
        (token (heap sample_manager ! 1)) (request7 peerC)
        (buildRelayHMAC tokenK2 (relayFrameHeader RelayTypeHandshakeRequest (request7 peerC))
             (request7 peerC)) \<noteq> None
   \<and> fst (handleConn sample_codecs 5 sample_manager) = Some ErrHMACMismatch
   \<and> allocations (snd (handleConn sample_codecs 5 sample_manager)) = [(12, 0), (7, 1)]
   \<and> heap (snd (handleConn sample_codecs 5 sample_manager)) = heap sample_manager
   \<and> wbuf (conns (snd (handleConn sample_codecs 5 sample_manager)) 5) =
        relayFrameBuf RelayTypeHandshakeAck tokenK
          (Marshal_HandshakeAck sample_codecs \<lparr>Ok = False, Error = ''hmac mismatch''\<rparr>)
   \<and> closed (conns (serveConn sample_codecs 5 sample_manager) 5)
   \<and> heap (serveConn sample_codecs 5 sample_manager) = heap sample_manager"
proof -
  have h1: "ReadRelayFrameRaw (conns sample_manager 5) =
     (Inr (relayFrameHeader RelayTypeHandshakeRequest (request7 peerC), request7 peerC,
           buildRelayHMAC tokenK2 (relayFrameHeader RelayTypeHandshakeRequest (request7 peerC))
             (request7 peerC)),
      conn_with [])"
    by (simp add: sample_conns read_conn_with sample_lengths peerC_def)
  have h2: "Type (relayFrameHeader RelayTypeHandshakeRequest (request7 peerC)) = RelayTypeHandshakeRequest"
    by (simp add: relayFrameHeader_def)
  note h3 = sample_unmarshal7
  have h4: "map_of (allocations sample_manager) (StreamId \<lparr>StreamId = 7, SenderPeerId = peerC\<rparr>) = Some 1"
    by (simp add: sample_lookup)
  have h5: "VerifyRelayHMAC (relayFrameHeader RelayTypeHandshakeRequest (request7 peerC))
        (token (heap sample_manager ! 1)) (request7 peerC)
        (buildRelayHMAC tokenK2 (relayFrameHeader RelayTypeHandshakeRequest (request7 peerC))
             (request7 peerC)) \<noteq> None"
    using tags_differ by (simp add: VerifyRelayHMAC_def sample_heap1)
  have w: "\<not> wfail (conns sample_manager 5)
     \<and> length (Marshal_HandshakeAck sample_codecs \<lparr>Ok = False, Error = ''hmac mismatch''\<rparr>) \<le> 65535"
    by (simp add: sample_conns conn_with_def sample_codecs_def)
  have b: "wbuf (conns sample_manager 5) = []" by (simp add: sample_conns conn_with_def)
  have a: "allocations sample_manager = [(12, 0), (7, 1)]" by (simp add: sample_manager_def)
  have t: "token (heap sample_manager ! 1) = tokenK" by (simp add: sample_heap1)
  from hmac_mismatch_rejected [OF h1 h2 h3 h4 h5] w b a t h1 h2 h3 h4 h5
  show ?thesis by simp
qed

text \<open>
  Claim C9. An authenticated handshake (valid HMAC, sender one of the two peers) for a
  side whose slot is taken, on a connection that takes the write: the acknowledgement
  with \<open>ok = true\<close>, signed with the token, is written to the arriving connection, and
  only then does the handler return the already-bridged error; no allocation changes,
  so the connection is installed nowhere, no bridge is started, and the goroutine of
  the connection closes it.
\<close>

theorem duplicate_side_acked_then_closed:
  assumes rd: "ReadRelayFrameRaw (conns m c) = (Inr (hdr, data, hsum), nc)"
    and ty: "Type hdr = RelayTypeHandshakeRequest"
    and um: "Unmarshal_HandshakeRequest pb data = Some req"
    and lk: "map_of (allocations m) (StreamId req) = Some p"
    and vf: "VerifyRelayHMAC hdr (token (heap m ! p)) data hsum = None"
    and pid: "IDFromBytes pb (SenderPeerId req) = Some sender"
    and occ: "(serverPeerID (heap m ! p) = sender \<and> sideS (heap m ! p) \<noteq> None)
            \<or> (serverPeerID (heap m ! p) \<noteq> sender \<and> clientPeerID (heap m ! p) = sender
                \<and> sideC (heap m ! p) \<noteq> None)"
    and wr: "\<not> wfail (conns m c)"
    and len: "length (Marshal_HandshakeAck pb \<lparr>Ok = True, Error = []\<rparr>) \<le> 65535"
  shows "fst (handleConn pb c m) =
           Some (if serverPeerID (heap m ! p) = sender then ErrServerAlreadyBridged
                 else ErrClientAlreadyBridged)
       \<and> wbuf (conns (snd (handleConn pb c m)) c) =
            wbuf (conns m c) @ relayFrameBuf RelayTypeHandshakeAck (token (heap m ! p))
              (Marshal_HandshakeAck pb \<lparr>Ok = True, Error = []\<rparr>)
       \<and> heap (snd (handleConn pb c m)) = heap m
       \<and> allocations (snd (handleConn pb c m)) = allocations m
       \<and> tasks (snd (handleConn pb c m)) = tasks m
       \<and> closed (conns (serveConn pb c m) c)
       \<and> wbuf (conns (serveConn pb c m) c) =
            wbuf (conns m c) @ relayFrameBuf RelayTypeHandshakeAck (token (heap m ! p))
              (Marshal_HandshakeAck pb \<lparr>Ok = True, Error = []\<rparr>)
       \<and> heap (serveConn pb c m) = heap m
       \<and> allocations (serveConn pb c m) = allocations m
       \<and> tasks (serveConn pb c m) = tasks m"
proof -
  note hc = handleConn_occupied [OF rd ty um lk vf pid occ wr len]
  show ?thesis
    unfolding serveConn_error [OF hc] unfolding hc by (simp add: conn_Close_def)
qed

theorem duplicate_side_acked_then_closed_witness:
  "ReadRelayFrameRaw (conns sample_manager 6) =
     (Inr (relayFrameHeader RelayTypeHandshakeRequest (request7 peerC), request7 peerC,
           buildRelayHMAC tokenK (relayFrameHeader RelayTypeHandshakeRequest (request7 peerC))
             (request7 peerC)),
      conn_with [])
   \<and> Type (relayFrameHeader RelayTypeHandshakeRequest (request7 peerC)) = RelayTypeHandshakeRequest
   \<and> Unmarshal_HandshakeRequest sample_codecs (request7 peerC)
       = Some \<lparr>StreamId = 7, SenderPeerId = peerC\<rparr>
   \<and> map_of (allocations sample_manager) (StreamId \<lparr>StreamId = 7, SenderPeerId = peerC\<rparr>) = Some 1
   \<and> VerifyRelayHMAC (relayFrameHeader RelayTypeHandshakeRequest (request7 peerC))
        (token (heap sample_manager ! 1)) (request7 peerC)
        (buildRelayHMAC tokenK (relayFrameHeader RelayTypeHandshakeRequest (request7 peerC))
             (request7 peerC)) = None
   \<and> IDFromBytes sample_codecs (SenderPeerId \<lparr>StreamId = 7, SenderPeerId = peerC\<rparr>) = Some peerC
   \<and> serverPeerID (heap sample_manager ! 1) \<noteq> peerC
   \<and> clientPeerID (heap sample_manager ! 1) = peerC
   \<and> sideC (heap sample_manager ! 1) = Some 3
   \<and> \<not> wfail (conns sample_manager 6)
   \<and> length (Marshal_HandshakeAck sample_codecs \<lparr>Ok = True, Error = []\<rparr>) \<le> 65535
   \<and> fst (handleConn sample_codecs 6 sample_manager) = Some ErrClientAlreadyBridged
   \<and> wbuf (conns (snd (handleConn sample_codecs 6 sample_manager)) 6) =
        relayFrameBuf RelayTypeHandshakeAck tokenK
          (Marshal_HandshakeAck sample_codecs \<lparr>Ok = True, Error = []\<rparr>)
   \<and> heap (snd (handleConn sample_codecs 6 sample_manager)) = heap sample_manager
   \<and> closed (conns (serveConn sample_codecs 6 sample_manager) 6)
   \<and> sideC (heap (serveConn sample_codecs 6 sample_manager) ! 1) = Some 3
   \<and> tasks (serveConn sample_codecs 6 sample_manager) = tasks sample_manager"
proof -
  have h1: "ReadRelayFrameRaw (conns sample_manager 6) =
     (Inr (relayFrameHeader RelayTypeHandshakeRequest (request7 peerC), request7 peerC,
           buildRelayHMAC tokenK (relayFrameHeader RelayTypeHandshakeRequest (request7 peerC))
             (request7 peerC)),
      conn_with [])"
    by (simp add: sample_conns read_conn_with sample_lengths peerC_def)
  have h2: "Type (relayFrameHeader RelayTypeHandshakeRequest (request7 peerC)) = RelayTypeHandshakeRequest"
    by (simp add: relayFrameHeader_def)
  note h3 = sample_unmarshal7
  have h4: "map_of (allocations sample_manager) (StreamId \<lparr>StreamId = 7, SenderPeerId = peerC\<rparr>) = Some 1"
    by (simp add: sample_lookup)
  have h5: "VerifyRelayHMAC (relayFrameHeader RelayTypeHandshakeRequest (request7 peerC))
        (token (heap sample_manager ! 1)) (request7 peerC)
        (buildRelayHMAC tokenK (relayFrameHeader RelayTypeHandshakeRequest (request7 peerC))
             (request7 peerC)) = None"
    by (simp add: VerifyRelayHMAC_same sample_heap1)
  have h6: "IDFromBytes sample_codecs (SenderPeerId \<lparr>StreamId = 7, SenderPeerId = peerC\<rparr>) = Some peerC"
    by (simp add: sample_codecs_def peerC_def)
  have s: "serverPeerID (heap sample_manager ! 1) \<noteq> peerC"
          "clientPeerID (heap sample_manager ! 1) = peerC"
          "sideC (heap sample_manager ! 1) = Some 3"
    by (simp_all add: sample_heap1 peerS_def peerC_def)
  have h7: "(serverPeerID (heap sample_manager ! 1) = peerC \<and> sideS (heap sample_manager ! 1) \<noteq> None)
            \<or> (serverPeerID (heap sample_manager ! 1) \<noteq> peerC \<and> clientPeerID (heap sample_manager ! 1) = peerC
                \<and> sideC (heap sample_manager ! 1) \<noteq> None)"
    using s by simp
  have h8: "\<not> wfail (conns sample_manager 6)" by (simp add: sample_conns conn_with_def)
  have h9: "length (Marshal_HandshakeAck sample_codecs \<lparr>Ok = True, Error = []\<rparr>) \<le> 65535"
    by (simp add: sample_codecs_def)
  have b: "wbuf (conns sample_manager 6) = []" by (simp add: sample_conns conn_with_def)
  have t: "token (heap sample_manager ! 1) = tokenK" by (simp add: sample_heap1)
  from duplicate_side_acked_then_closed [OF h1 h2 h3 h4 h5 h6 h7 h8 h9] b t s h1 h2 h3 h4 h5 h6 h8 h9
  show ?thesis by simp
qed

text \<open>
  Claim C3. A side slot that holds a connection keeps it through every run of the
  manager: whatever events follow, the allocation is still there with the same
  connection in that slot. In particular an authenticated handshake (valid HMAC, sender
  one of the two peers, acknowledgement written) for a side that is taken returns the
  already-bridged error of that side and leaves every allocation as it was: the
  arriving connection is installed nowhere and the slot holds the connection it held.
\<close>

theorem side_never_overwritten:
  "(run pb evs m = Some m' \<and> q < length (heap m) \<longrightarrow>
      q < length (heap m')
      \<and> (sideS (heap m ! q) \<noteq> None \<longrightarrow> sideS (heap m' ! q) = sideS (heap m ! q))
      \<and> (sideC (heap m ! q) \<noteq> None \<longrightarrow> sideC (heap m' ! q) = sideC (heap m ! q)))
   \<and> (ReadRelayFrameRaw (conns m c) = (Inr (hdr, data, hsum), nc)
      \<and> Type hdr = RelayTypeHandshakeRequest
      \<and> Unmarshal_HandshakeRequest pb data = Some req
      \<and> map_of (allocations m) (StreamId req) = Some p
      \<and> VerifyRelayHMAC hdr (token (heap m ! p)) data hsum = None
      \<and> IDFromBytes pb (SenderPeerId req) = Some sender
      \<and> ((serverPeerID (heap m ! p) = sender \<and> sideS (heap m ! p) \<noteq> None)
            \<or> (serverPeerID (heap m ! p) \<noteq> sender \<and> clientPeerID (heap m ! p) = sender
                \<and> sideC (heap m ! p) \<noteq> None))
      \<and> \<not> wfail (conns m c)
      \<and> length (Marshal_HandshakeAck pb \<lparr>Ok = True, Error = []\<rparr>) \<le> 65535 \<longrightarrow>
      fst (handleConn pb c m) =
           Some (if serverPeerID (heap m ! p) = sender then ErrServerAlreadyBridged
                 else ErrClientAlreadyBridged)
      \<and> heap (snd (handleConn pb c m)) = heap m
      \<and> allocations (snd (handleConn pb c m)) = allocations m
      \<and> heap (serveConn pb c m) = heap m)"
proof (rule conjI)
  show "run pb evs m = Some m' \<and> q < length (heap m) \<longrightarrow>
      q < length (heap m')
      \<and> (sideS (heap m ! q) \<noteq> None \<longrightarrow> sideS (heap m' ! q) = sideS (heap m ! q))
      \<and> (sideC (heap m ! q) \<noteq> None \<longrightarrow> sideC (heap m' ! q) = sideC (heap m ! q))"
    using run_sides [of pb evs m m' q] by blast
next
  show "ReadRelayFrameRaw (conns m c) = (Inr (hdr, data, hsum), nc)
      \<and> Type hdr = RelayTypeHandshakeRequest
      \<and> Unmarshal_HandshakeRequest pb data = Some req
      \<and> map_of (allocations m) (StreamId req) = Some p
      \<and> VerifyRelayHMAC hdr (token (heap m ! p)) data hsum = None
      \<and> IDFromBytes pb (SenderPeerId req) = Some sender
      \<and> ((serverPeerID (heap m ! p) = sender \<and> sideS (heap m ! p) \<noteq> None)
            \<or> (serverPeerID (heap m ! p) \<noteq> sender \<and> clientPeerID (heap m ! p) = sender
                \<and> sideC (heap m ! p) \<noteq> None))
      \<and> \<not> wfail (conns m c)
      \<and> length (Marshal_HandshakeAck pb \<lparr>Ok = True, Error = []\<rparr>) \<le> 65535 \<longrightarrow>
      fst (handleConn pb c m) =
           Some (if serverPeerID (heap m ! p) = sender then ErrServerAlreadyBridged
                 else ErrClientAlreadyBridged)
      \<and> heap (snd (handleConn pb c m)) = heap m
      \<and> allocations (snd (handleConn pb c m)) = allocations m
      \<and> heap (serveConn pb c m) = heap m"
  proof
    assume a: "ReadRelayFrameRaw (conns m c) = (Inr (hdr, data, hsum), nc)
      \<and> Type hdr = RelayTypeHandshakeRequest
      \<and> Unmarshal_HandshakeRequest pb data = Some req
      \<and> map_of (allocations m) (StreamId req) = Some p
      \<and> VerifyRelayHMAC hdr (token (heap m ! p)) data hsum = None
      \<and> IDFromBytes pb (SenderPeerId req) = Some sender
      \<and> ((serverPeerID (heap m ! p) = sender \<and> sideS (heap m ! p) \<noteq> None)
            \<or> (serverPeerID (heap m ! p) \<noteq> sender \<and> clientPeerID (heap m ! p) = sender
                \<and> sideC (heap m ! p) \<noteq> None))
      \<and> \<not> wfail (conns m c)
      \<and> length (Marshal_HandshakeAck pb \<lparr>Ok = True, Error = []\<rparr>) \<le> 65535"
    then have rd: "ReadRelayFrameRaw (conns m c) = (Inr (hdr, data, hsum), nc)"
      and ty: "Type hdr = RelayTypeHandshakeRequest"
      and um: "Unmarshal_HandshakeRequest pb data = Some req"
      and lk: "map_of (allocations m) (StreamId req) = Some p"
      and vf: "VerifyRelayHMAC hdr (token (heap m ! p)) data hsum = None"
      and pid: "IDFromBytes pb (SenderPeerId req) = Some sender"
      and occ: "(serverPeerID (heap m ! p) = sender \<and> sideS (heap m ! p) \<noteq> None)
            \<or> (serverPeerID (heap m ! p) \<noteq> sender \<and> clientPeerID (heap m ! p) = sender
                \<and> sideC (heap m ! p) \<noteq> None)"
      and wr: "\<not> wfail (conns m c)"
      and len: "length (Marshal_HandshakeAck pb \<lparr>Ok = True, Error = []\<rparr>) \<le> 65535"
      by blast+
    have hc: "handleConn pb c m =
       (Some (if serverPeerID (heap m ! p) = sender then ErrServerAlreadyBridged
              else ErrClientAlreadyBridged),
        m\<lparr>conns := (conns m)(c := nc\<lparr>wbuf := wbuf (conns m c)
             @ relayFrameBuf RelayTypeHandshakeAck (token (heap m ! p))
                 (Marshal_HandshakeAck pb \<lparr>Ok = True, Error = []\<rparr>)\<rparr>)\<rparr>)"
      by (rule handleConn_occupied [OF rd ty um lk vf pid occ wr len])
    show "fst (handleConn pb c m) =
           Some (if serverPeerID (heap m ! p) = sender then ErrServerAlreadyBridged
                 else ErrClientAlreadyBridged)
      \<and> heap (snd (handleConn pb c m)) = heap m
      \<and> allocations (snd (handleConn pb c m)) = allocations m
      \<and> heap (serveConn pb c m) = heap m"
      unfolding serveConn_error [OF hc] unfolding hc by simp
  qed
qed

theorem side_never_overwritten_witness:
  "run sample_codecs [Accept (Some 6), Handle 6] sample_manager
     = Some (the (run sample_codecs [Accept (Some 6), Handle 6] sample_manager))
   \<and> 1 < length (heap sample_manager)
   \<and> sideC (heap sample_manager ! 1) = Some 3
   \<and> 1 < length (heap (the (run sample_codecs [Accept (Some 6), Handle 6] sample_manager)))
   \<and> sideC (heap (the (run sample_codecs [Accept (Some 6), Handle 6] sample_manager)) ! 1) = Some 3
   \<and> fst (handleConn sample_codecs 6 sample_manager) = Some ErrClientAlreadyBridged
   \<and> heap (snd (handleConn sample_codecs 6 sample_manager)) = heap sample_manager
   \<and> heap (serveConn sample_codecs 6 sample_manager) = heap sample_manager"
proof -
  have r: "run sample_codecs [Accept (Some 6), Handle 6] sample_manager
     = Some (the (run sample_codecs [Accept (Some 6), Handle 6] sample_manager))"
    using sample_run_defined by simp
  have l: "1 < length (heap sample_manager)" by (simp add: sample_manager_def)
  have occ: "(serverPeerID (heap sample_manager ! 1) = peerC \<and> sideS (heap sample_manager ! 1) \<noteq> None)
            \<or> (serverPeerID (heap sample_manager ! 1) \<noteq> peerC \<and> clientPeerID (heap sample_manager ! 1) = peerC
                \<and> sideC (heap sample_manager ! 1) \<noteq> None)"
    using sample_dup_side by simp
  from side_never_overwritten [of sample_codecs "[Accept (Some 6), Handle 6]" sample_manager
      "the (run sample_codecs [Accept (Some 6), Handle 6] sample_manager)" 1 6
      "relayFrameHeader RelayTypeHandshakeRequest (request7 peerC)" "request7 peerC"
      "buildRelayHMAC tokenK (relayFrameHeader RelayTypeHandshakeRequest (request7 peerC)) (request7 peerC)"
      "conn_with []" "\<lparr>StreamId = 7, SenderPeerId = peerC\<rparr>" 1 peerC]
    r l occ sample_dup_read sample_dup_type sample_unmarshal7 sample_dup_lookup sample_dup_verify
    sample_dup_sender sample_dup_side sample_dup_writable
  show ?thesis by simp
qed

section \<open>Claims about the collector and the facade\<close>



text \<open>
  Claim C10. Take any state that a run of the manager reaches from \<open>New\<close>. When the
  stream id that \<open>CreateStream\<close> draws is the id of a live allocation, and the read of the
  token succeeds, \<open>CreateStream\<close> returns the id, the token and the listen address; the
  entry of that id now points to the new allocation, which has both sides empty; the map
  has the same ids as before and the other ids keep their allocations; no id leads to the
  old allocation any more; the old allocation itself keeps its sides, and no connection
  changes: none is closed.
\<close>

theorem create_stream_collision:
  assumes reach: "run pb evs (New net addr) = Some m" and len: "40 \<le> length rnd"
    and old: "map_of (allocations m) (Uint64 rnd) = Some p_old"
  shows "fst (CreateStream rnd now srv cli d m)
           = Inr (Uint64 rnd, take 32 (drop 8 rnd), listenAddr m)
       \<and> map_of (allocations (snd (CreateStream rnd now srv cli d m))) (Uint64 rnd)
           = Some (length (heap m))
       \<and> heap (snd (CreateStream rnd now srv cli d m)) ! length (heap m)
           = \<lparr>streamID = Uint64 rnd, token = take 32 (drop 8 rnd),
              serverPeerID = srv, clientPeerID = cli,
              sideS = None, sideC = None, created = now, ttl = d\<rparr>
       \<and> map fst (allocations (snd (CreateStream rnd now srv cli d m))) = map fst (allocations m)
       \<and> (\<forall>k. k \<noteq> Uint64 rnd \<longrightarrow>
             map_of (allocations (snd (CreateStream rnd now srv cli d m))) k = map_of (allocations m) k)
       \<and> (\<forall>k. map_of (allocations (snd (CreateStream rnd now srv cli d m))) k \<noteq> Some p_old)
       \<and> p_old \<notin> snd ` set (allocations (snd (CreateStream rnd now srv cli d m)))
       \<and> heap (snd (CreateStream rnd now srv cli d m)) ! p_old = heap m ! p_old
       \<and> conns (snd (CreateStream rnd now srv cli d m)) = conns m
       \<and> tasks (snd (CreateStream rnd now srv cli d m)) = tasks m"
proof -
  let ?k = "Uint64 rnd"
  let ?al = "AList.update ?k (length (heap m)) (allocations m)"
  note cs = CreateStream_ok [OF len, of now srv cli d m]
  have ok: "table_ok m" using New_table_ok reach by (rule run_table_ok)
  have dk: "distinct (map fst (allocations m))" and dv: "distinct (map snd (allocations m))"
    and bd: "\<forall>e \<in> set (allocations m). snd e < length (heap m)"
    using ok by (simp_all add: table_ok_def list_all_iff)
  have mem: "(?k, p_old) \<in> set (allocations m)" using old by (rule map_of_SomeD)
  then have lt: "p_old < length (heap m)" using bd by force
  have keys: "map fst ?al = map fst (allocations m)"
    using mem by (force simp add: update_keys image_iff)
  have st: "set ?al = insert (?k, length (heap m)) (set (allocations m) - {(?k, p_old)})"
    by (rule set_update_present [OF dk old])
  have gone: "p_old \<notin> snd ` set ?al"
  proof
    assume "p_old \<in> snd ` set ?al"
    then obtain k where k: "(k, p_old) \<in> set ?al" by force
    with st lt have "(k, p_old) \<in> set (allocations m)" and ne: "(k, p_old) \<noteq> (?k, p_old)" by auto
    from same_value_same_key [OF dv this(1) mem] ne show False by simp
  qed
  have unreachable: "\<forall>k. map_of ?al k \<noteq> Some p_old"
  proof (intro allI notI)
    fix k assume "map_of ?al k = Some p_old"
    then have "(k, p_old) \<in> set ?al" by (rule map_of_SomeD)
    with gone show False by force
  qed
  show ?thesis
    unfolding cs using keys gone unreachable lt
    by (simp add: update_conv' nth_append)
qed

theorem create_stream_collision_witness:
  "run sample_codecs (butlast stop_run) (New stop_net '':24002'') = Some waiting_manager
   \<and> 40 \<le> length stop_rnd
   \<and> map_of (allocations waiting_manager) (Uint64 stop_rnd) = Some 0
   \<and> fst (CreateStream stop_rnd 5 peerS peerC 60000000000 waiting_manager)
        = Inr (7, tokenK, '':24002'')
   \<and> map_of (allocations (snd (CreateStream stop_rnd 5 peerS peerC 60000000000 waiting_manager))) 7
        = Some 1
   \<and> 0 \<notin> snd ` set (allocations (snd (CreateStream stop_rnd 5 peerS peerC 60000000000 waiting_manager)))
   \<and> sideS (heap (snd (CreateStream stop_rnd 5 peerS peerC 60000000000 waiting_manager)) ! 0) = Some 1
   \<and> sideS (heap (snd (CreateStream stop_rnd 5 peerS peerC 60000000000 waiting_manager)) ! 1) = None
   \<and> conns (snd (CreateStream stop_rnd 5 peerS peerC 60000000000 waiting_manager))
        = conns waiting_manager"
proof -
  have o: "map_of (allocations waiting_manager) (Uint64 stop_rnd) = Some 0"
    by (simp add: stop_rnd_facts waiting_manager_facts)
  have l: "length (heap waiting_manager) = 1" "length (heap waiting_manager) = Suc 0"
    "listenAddr waiting_manager = '':24002''"
    by (simp_all add: waiting_manager_def)
  from create_stream_collision [OF run_waiting_manager stop_rnd_facts(1) o, of 5 peerS peerC 60000000000]
       run_waiting_manager stop_rnd_facts o l waiting_manager_facts
  show ?thesis by simp
qed
section \<open>Claim about the shutdown\<close>




end
